theory Spec2Isabelle
  imports Complex_Main "HOL-Library.Log_Nat" "HOL-Library.AList"
begin

section \<open>JavaScript values used by src/index.ts\<close>

text \<open>
  The service is one TypeScript file, \<^verbatim>\<open>src/index.ts\<close>: an HTTP handler that validates a
  \<^verbatim>\<open>POST /analyze\<close> request, answers at once with a test id, and runs Lighthouse in a
  browser in the background, posting the report to an API.

  A thrown value is an \<^verbatim>\<open>Error\<close> object: its name and its message.
\<close>

datatype error = Error (error_name: string) (message: string)

text \<open>
  What V8 throws for \<^verbatim>\<open>v.p\<close> when \<^verbatim>\<open>v\<close> is \<^verbatim>\<open>undefined\<close> or \<^verbatim>\<open>null\<close>;
  \<^verbatim>\<open>CHR 0x27\<close> is the single quote around the property name.
\<close>

definition type_error :: "string \<Rightarrow> string \<Rightarrow> error" where
  "type_error what p =
     Error ''TypeError''
       (''Cannot read properties of '' @ what @ '' (reading '' @ [CHR 0x27] @ p @ [CHR 0x27] @ '')'')"

subsection \<open>Numbers: IEEE 754 binary64\<close>

text \<open>
  A JavaScript number is a binary64 value. A finite one is the rational it denotes
  (the two zeros are one value here: the code never tells them apart).
\<close>

datatype number = Finite rat | NaN | Infinity | Neg_Infinity

text \<open>For \<open>0 < q\<close>, the integer \<open>e\<close> with \<open>2 powi e \<le> q < 2 powi (e + 1)\<close>.\<close>

definition floor_log2 :: "rat \<Rightarrow> int" where
  "floor_log2 q =
     (case quotient_of q of (a, b) \<Rightarrow>
        let e = bitlen a - bitlen b in if 2 powi e \<le> q then e else e - 1)"

definition round_half_even :: "rat \<Rightarrow> int" where
  "round_half_even x =
     (let f = \<lfloor>x\<rfloor>; r = x - of_int f
      in if r < 1 / 2 then f else if 1 / 2 < r then f + 1 else if even f then f else f + 1)"

text \<open>
  Rounding a rational to binary64, to nearest, ties to even: 53 significant bits, the
  exponent not below \<open>-1022\<close> (subnormals), overflow to an infinity from \<open>2 ^ 1024\<close>.
  It is how the result of an arithmetic operation and a decimal literal become a number.
\<close>

definition binary64 :: "rat \<Rightarrow> number" where
  "binary64 q =
     (if q = 0 then Finite 0
      else let e = max (floor_log2 \<bar>q\<bar>) (- 1022);
               ulp = 2 powi (e - 52);
               v = of_int (round_half_even (\<bar>q\<bar> / ulp)) * ulp
           in if 2 ^ 1024 \<le> v then (if 0 < q then Infinity else Neg_Infinity)
              else Finite (sgn q * v))"

fun is_zero :: "number \<Rightarrow> bool" where
  "is_zero (Finite q) = (q = 0)"
| "is_zero _ = False"

fun is_negative :: "number \<Rightarrow> bool" where
  "is_negative (Finite q) = (q < 0)"
| "is_negative Neg_Infinity = True"
| "is_negative _ = False"

text \<open>The operator \<^verbatim>\<open>*\<close> on numbers.\<close>

fun times_number :: "number \<Rightarrow> number \<Rightarrow> number" where
  "times_number (Finite a) (Finite b) = binary64 (a * b)"
| "times_number NaN _ = NaN"
| "times_number _ NaN = NaN"
| "times_number x y =
     (if is_zero x \<or> is_zero y then NaN
      else if is_negative x = is_negative y then Infinity else Neg_Infinity)"

text \<open>
  \<^verbatim>\<open>Math.round\<close>: the closest integer, a tie going towards \<open>+\<infinity>\<close>. The integers
  closest to a binary64 value are binary64 values, so no rounding step follows.
\<close>

fun Math_round :: "number \<Rightarrow> number" where
  "Math_round (Finite q) = Finite (of_int \<lfloor>q + 1 / 2\<rfloor>)"
| "Math_round x = x"

text \<open>The operator \<^verbatim>\<open>>=\<close> on numbers.\<close>

fun ge_number :: "number \<Rightarrow> number \<Rightarrow> bool" where
  "ge_number NaN _ = False"
| "ge_number _ NaN = False"
| "ge_number (Finite a) (Finite b) = (b \<le> a)"
| "ge_number Infinity _ = True"
| "ge_number _ Neg_Infinity = True"
| "ge_number _ _ = False"

text \<open>Truthiness of a number: \<open>0\<close> and \<^verbatim>\<open>NaN\<close> are falsy.\<close>

fun truthy_number :: "number \<Rightarrow> bool" where
  "truthy_number (Finite q) = (q \<noteq> 0)"
| "truthy_number NaN = False"
| "truthy_number _ = True"

subsection \<open>JSON values: the request body\<close>

text \<open>
  What \<^verbatim>\<open>JSON.parse\<close> returns. An object is the list of its entries, in order, its
  keys distinct. A string is the list of its bytes in UTF-8.
\<close>

datatype json =
    JNull
  | JBool bool
  | JNumber number
  | JString string
  | JArray "json list"
  | JObject "(string \<times> json) list"

fun truthy :: "json \<Rightarrow> bool" where
  "truthy JNull = False"
| "truthy (JBool b) = b"
| "truthy (JNumber n) = truthy_number n"
| "truthy (JString s) = (s \<noteq> [])"
| "truthy (JArray _) = True"
| "truthy (JObject _) = True"

text \<open>
  The read \<^verbatim>\<open>v.p\<close> of a parsed value, for a property \<^verbatim>\<open>p\<close> that no prototype
  defines (the code reads \<^verbatim>\<open>url\<close> and \<^verbatim>\<open>options\<close>): \<open>None\<close> is \<^verbatim>\<open>undefined\<close>;
  on \<^verbatim>\<open>null\<close> the read throws.
\<close>

fun property :: "json \<Rightarrow> string \<Rightarrow> json option" where
  "property (JObject entries) p = map_of entries p"
| "property _ p = None"

definition get_property :: "json \<Rightarrow> string \<Rightarrow> error + json option" where
  "get_property v p = (if v = JNull then Inl (type_error ''null'' p) else Inr (property v p))"

text \<open>A value or \<^verbatim>\<open>undefined\<close> in a condition.\<close>

fun truthy_opt :: "json option \<Rightarrow> bool" where
  "truthy_opt None = False"
| "truthy_opt (Some v) = truthy v"

subsection \<open>Decimal numerals\<close>

text \<open>How a non-negative integer below \<open>10 ^ 21\<close> reads in a template literal.\<close>

definition digit_char :: "nat \<Rightarrow> char" where
  "digit_char d = ''0123456789'' ! d"

fun show_nat :: "nat \<Rightarrow> string" where
  "show_nat n = (if n < 10 then [digit_char n] else show_nat (n div 10) @ [digit_char (n mod 10)])"

declare show_nat.simps [simp del]

section \<open>The Lighthouse report\<close>

text \<open>
  \<^verbatim>\<open>results\<close> is the \<^verbatim>\<open>lhr\<close> object of Lighthouse, or \<^verbatim>\<open>undefined\<close>. Of the object the
  code reads \<^verbatim>\<open>finalUrl\<close>, \<^verbatim>\<open>requestedUrl\<close>, \<^verbatim>\<open>categories\<close> (name to category, each
  with a \<^verbatim>\<open>score\<close>) and \<^verbatim>\<open>audits\<close> (id to audit, each with a \<^verbatim>\<open>displayValue\<close>).
  A field is optional (\<open>None\<close>: absent, \<^verbatim>\<open>undefined\<close> or \<^verbatim>\<open>null\<close>) wherever the
  code guards its read with \<^verbatim>\<open>||\<close>, \<^verbatim>\<open>?.\<close> or \<^verbatim>\<open>if\<close>.
\<close>

datatype score_value = Score_missing | Score_null | Score number

record category =
  score :: score_value

record audit =
  displayValue :: "string option"

record lhr =
  finalUrl :: "string option"
  requestedUrl :: "string option"
  categories :: "(string \<times> category) list option"
  audits :: "(string \<times> audit) list option"

text \<open>
  What \<^verbatim>\<open>lighthouse(url, flags)\<close> resolves with, when it is an object: the argument is
  its \<^verbatim>\<open>lhr\<close> property (\<open>None\<close> when it has none).
\<close>

datatype runner_result = Runner_result "lhr option"

section \<open>Effects\<close>

text \<open>A browser that \<^verbatim>\<open>puppeteer.launch\<close> started.\<close>

type_synonym browser = nat

text \<open>The three circles of line 46: green, yellow, red.\<close>

datatype emoji = Green | Yellow | Red

text \<open>
  One constructor for each \<^verbatim>\<open>console.log\<close> and \<^verbatim>\<open>console.error\<close> call of the
  request's path, with the values the call interpolates or passes; the fixed text of the
  call (French, with an emoji in front) is given in ASCII beside it.
\<close>

datatype log_line =
    Results_for string
      \<comment> \<open>line 39: "Resultats Lighthouse pour", testId, ":"\<close>
  | Tested_url "string option"
      \<comment> \<open>line 40: "URL testee:", results.finalUrl || results.requestedUrl\<close>
  | Scores
      \<comment> \<open>line 41: "Scores:"\<close>
  | Score_line emoji string number
      \<comment> \<open>line 47: "  <emoji> <category>: <score>/100"\<close>
  | Metrics
      \<comment> \<open>line 56: "Metriques de performance:"\<close>
  | First_contentful_paint string
      \<comment> \<open>line 57: "  First Contentful Paint: <fcp>"\<close>
  | Largest_contentful_paint string
      \<comment> \<open>line 58: "  Largest Contentful Paint: <lcp>"\<close>
  | Total_size string
      \<comment> \<open>line 59: "  Taille totale: <totalSize>"\<close>
  | Separator
      \<comment> \<open>line 60: "---"\<close>
  | Results_sent
      \<comment> \<open>line 69: "Resultats envoyes avec succes a l'API"\<close>
  | Send_error error
      \<comment> \<open>line 71: "Erreur lors de l'envoi des resultats a l'API:", error\<close>
  | Starting json string
      \<comment> \<open>line 126: "Demarrage du test Lighthouse pour:", body.url, "(ID:", testId, ")"\<close>
  | Finished string
      \<comment> \<open>line 138: "Test Lighthouse termine pour", testId\<close>
  | Lighthouse_error string string
      \<comment> \<open>line 142: "Erreur Lighthouse pour", testId, ":", error.message\<close>
  | Server_error error
      \<comment> \<open>line 163: "Erreur serveur:", error\<close>

text \<open>The test id a console call passes, when it passes one.\<close>

fun line_test_id :: "log_line \<Rightarrow> string option" where
  "line_test_id (Results_for t) = Some t"
| "line_test_id (Starting u t) = Some t"
| "line_test_id (Finished t) = Some t"
| "line_test_id (Lighthouse_error t m) = Some t"
| "line_test_id _ = None"

text \<open>
  What the process does to the outside, in the order it does it. \<open>Response\<close> is
  \<^verbatim>\<open>res.writeHead(status, ...)\<close> followed by \<^verbatim>\<open>res.end(...)\<close>: with a body, the
  value that \<^verbatim>\<open>sendJSONResponse\<close> writes as JSON; without, the empty answer to
  \<^verbatim>\<open>OPTIONS\<close>. \<open>Launch\<close>, \<open>Lighthouse\<close>, \<open>Close\<close> and \<open>Post\<close> are the calls of
  \<^verbatim>\<open>puppeteer.launch\<close>, \<^verbatim>\<open>lighthouse\<close>, \<^verbatim>\<open>browser.close\<close> and \<^verbatim>\<open>axios.post\<close>
  (the URL, then \<^verbatim>\<open>testId\<close>, \<^verbatim>\<open>results\<close> and \<^verbatim>\<open>timestamp\<close> of the payload).
\<close>

datatype event =
    Set_header string string
  | Response nat "json option"
  | Console_log log_line
  | Console_error log_line
  | Launch
  | Lighthouse json "(string \<times> json) list"
  | Close browser
  | Post string string lhr string

text \<open>
  What the outside gives back during one request: the result of every call the code makes
  into Node, puppeteer, Lighthouse and axios. \<open>Inl\<close> (or \<open>Some\<close> for a call without a
  result) is the error the call throws or rejects with.
  \<^item> \<open>new_URL_ok v\<close>: \<^verbatim>\<open>new URL(v)\<close> returns (line 119);
  \<^item> \<open>Date_now\<close>: \<^verbatim>\<open>Date.now()\<close>, milliseconds since 1970 (line 124);
  \<^item> \<open>Math_random_suffix\<close>: \<^verbatim>\<open>Math.random().toString(36).substr(2, 9)\<close> (line 124);
  \<^item> \<open>puppeteer_launch\<close>: the browser of line 16;
  \<^item> \<open>wsEndpoint_port b\<close>: \<^verbatim>\<open>Number(new URL(browser.wsEndpoint()).port)\<close> (line 23);
  \<^item> \<open>lighthouse url flags\<close>: the call of line 22; \<open>Inr None\<close> is \<^verbatim>\<open>undefined\<close>;
  \<^item> \<open>browser_close b\<close>: line 32;
  \<^item> \<open>axios_post url testId results timestamp\<close>: line 63;
  \<^item> \<open>toISOString\<close>: \<^verbatim>\<open>new Date().toISOString()\<close> (lines 66 and 148);
  \<^item> \<open>env_API_URL\<close>: \<^verbatim>\<open>process.env.API_URL\<close> (line 13).
\<close>

record world =
  new_URL_ok :: "json \<Rightarrow> bool"
  Date_now :: nat
  Math_random_suffix :: string
  puppeteer_launch :: "error + browser"
  wsEndpoint_port :: "browser \<Rightarrow> error + number"
  lighthouse :: "json \<Rightarrow> (string \<times> json) list \<Rightarrow> error + runner_result option"
  browser_close :: "browser \<Rightarrow> error option"
  axios_post :: "string \<Rightarrow> string \<Rightarrow> lhr \<Rightarrow> string \<Rightarrow> error option"
  toISOString :: string
  env_API_URL :: "string option"

section \<open>The functions of src/index.ts\<close>

text \<open>
  A function that logs, answers or calls out returns the events it causes, in order, and
  then its result: \<open>Inr\<close> the value it returns (an \<^verbatim>\<open>async\<close> function: the value its
  promise resolves with), \<open>Inl\<close> the error it throws (the error its promise rejects
  with).

  The events are those of one request. Each \<^verbatim>\<open>await\<close> lets the events of other
  requests come in between, but the events of one request keep their order: every step
  of the chain waits for the step before it. The module keeps no variable that one
  request writes and another reads (\<^verbatim>\<open>PORT\<close>, \<^verbatim>\<open>API_URL\<close> and \<^verbatim>\<open>server\<close> are
  constants), so what one request does depends on its own \<open>world\<close> only.
\<close>

text \<open>Line 13: \<^verbatim>\<open>process.env.API_URL || 'http://localhost:3000'\<close>.\<close>

definition API_URL :: "world \<Rightarrow> string" where
  "API_URL w =
     (case env_API_URL w of
        None \<Rightarrow> ''http://localhost:3000''
      | Some s \<Rightarrow> if s = [] then ''http://localhost:3000'' else s)"

subsection \<open>executeLighthouse (lines 15 to 34)\<close>

text \<open>
  The own enumerable properties that \<^verbatim>\<open>...options\<close> copies: the entries of an
  object, the elements of an array and the characters of a string under their indices,
  nothing for any other value. The parameter's default \<^verbatim>\<open>{}\<close> stands in for
  \<^verbatim>\<open>undefined\<close>. For a string the indices here are those of its bytes, which are its
  characters when the string is ASCII; JavaScript counts UTF-16 units.
\<close>

fun spread :: "json option \<Rightarrow> (string \<times> json) list" where
  "spread (Some (JObject entries)) = entries"
| "spread (Some (JArray xs)) = zip (map show_nat [0..<length xs]) xs"
| "spread (Some (JString s)) = zip (map show_nat [0..<length s]) (map (\<lambda>c. JString [c]) s)"
| "spread _ = []"

text \<open>The second argument of \<^verbatim>\<open>lighthouse\<close> (lines 22 to 27): a later entry replaces
  an earlier one of the same key, so an entry of the caller's options replaces the
  \<^verbatim>\<open>port\<close>, \<^verbatim>\<open>output\<close> or \<^verbatim>\<open>onlyCategories\<close> written before it. The list is in
  the order of the writes; JavaScript lists integer-like keys first, and nothing here
  reads the order.\<close>

definition lighthouse_flags :: "number \<Rightarrow> json option \<Rightarrow> (string \<times> json) list" where
  "lighthouse_flags port options =
     foldl (\<lambda>flags (k, v). AList.update k v flags)
       [(''port'', JNumber port),
        (''output'', JString ''json''),
        (''onlyCategories'',
           JArray [JString ''performance'', JString ''accessibility'',
                   JString ''best-practices'', JString ''seo''])]
       (spread options)"

text \<open>Line 29: \<^verbatim>\<open>runnerResult && 'lhr' in runnerResult ? runnerResult.lhr : undefined\<close>.\<close>

fun lhr_of :: "runner_result option \<Rightarrow> lhr option" where
  "lhr_of None = None"
| "lhr_of (Some (Runner_result r)) = r"

text \<open>The \<^verbatim>\<open>try\<close> block, lines 22 to 30, with the browser of line 16.\<close>

definition run_audit :: "world \<Rightarrow> browser \<Rightarrow> json \<Rightarrow> json option \<Rightarrow> event list \<times> (error + lhr option)" where
  "run_audit w b url options =
     (case wsEndpoint_port w b of
        Inl e \<Rightarrow> ([], Inl e)
      | Inr port \<Rightarrow>
          ([Lighthouse url (lighthouse_flags port options)],
           case lighthouse w url (lighthouse_flags port options) of
             Inl e \<Rightarrow> Inl e
           | Inr runnerResult \<Rightarrow> Inr (lhr_of runnerResult)))"

text \<open>
  A launch that fails rejects before the \<^verbatim>\<open>try\<close>. Otherwise the \<^verbatim>\<open>finally\<close>
  block runs after the \<^verbatim>\<open>try\<close> block however that ended, and an error of
  \<^verbatim>\<open>browser.close()\<close> replaces the block's result.
\<close>

definition executeLighthouse :: "world \<Rightarrow> json \<Rightarrow> json option \<Rightarrow> event list \<times> (error + lhr option)" where
  "executeLighthouse w url options =
     (case puppeteer_launch w of
        Inl e \<Rightarrow> ([Launch], Inl e)
      | Inr b \<Rightarrow>
          (Launch # fst (run_audit w b url options) @ [Close b],
           case browser_close w b of
             Some e \<Rightarrow> Inl e
           | None \<Rightarrow> snd (run_audit w b url options)))"

subsection \<open>sendResultsToAPI (lines 36 to 73)\<close>

text \<open>Line 40: \<^verbatim>\<open>results.finalUrl || results.requestedUrl\<close>; the empty string is falsy.\<close>

definition tested_url :: "lhr \<Rightarrow> string option" where
  "tested_url results =
     (case finalUrl results of
        None \<Rightarrow> requestedUrl results
      | Some s \<Rightarrow> if s = [] then requestedUrl results else Some s)"

text \<open>Line 45: \<^verbatim>\<open>Math.round((data.score || 0) * 100)\<close>.\<close>

fun score_or_0 :: "score_value \<Rightarrow> number" where
  "score_or_0 (Score n) = (if truthy_number n then n else Finite 0)"
| "score_or_0 _ = Finite 0"

definition rounded_score :: "category \<Rightarrow> number" where
  "rounded_score data = Math_round (times_number (score_or_0 (score data)) (Finite 100))"

text \<open>Line 46: \<^verbatim>\<open>score >= 90 ? green : score >= 50 ? yellow : red\<close>.\<close>

definition emoji_of :: "number \<Rightarrow> emoji" where
  "emoji_of s =
     (if ge_number s (Finite 90) then Green else if ge_number s (Finite 50) then Yellow else Red)"

text \<open>Lines 44 to 48: the body of the \<^verbatim>\<open>forEach\<close>, for one entry.\<close>

definition score_line :: "string \<times> category \<Rightarrow> event" where
  "score_line entry =
     Console_log
       (Score_line (emoji_of (rounded_score (snd entry))) (fst entry) (rounded_score (snd entry)))"

text \<open>Lines 43 to 49.\<close>

definition score_lines :: "lhr \<Rightarrow> event list" where
  "score_lines results =
     (case categories results of None \<Rightarrow> [] | Some entries \<Rightarrow> map score_line entries)"

text \<open>
  Lines 52 to 54: \<^verbatim>\<open>results.audits?.[audit_id]?.displayValue || 'N/A'\<close>.
\<close>

definition display_value :: "lhr \<Rightarrow> string \<Rightarrow> string option" where
  "display_value results audit_id =
     (case audits results of
        None \<Rightarrow> None
      | Some entries \<Rightarrow> (case map_of entries audit_id of None \<Rightarrow> None | Some a \<Rightarrow> displayValue a))"

definition metric :: "lhr \<Rightarrow> string \<Rightarrow> string" where
  "metric results audit_id =
     (case display_value results audit_id of
        None \<Rightarrow> ''N/A''
      | Some s \<Rightarrow> if s = [] then ''N/A'' else s)"

text \<open>Lines 39 to 60 for a report that is an object: nothing here throws.\<close>

definition summary :: "string \<Rightarrow> lhr \<Rightarrow> event list" where
  "summary test_id results =
     [Console_log (Results_for test_id),
      Console_log (Tested_url (tested_url results)),
      Console_log Scores]
     @ score_lines results
     @ [Console_log Metrics,
        Console_log (First_contentful_paint (metric results ''first-contentful-paint'')),
        Console_log (Largest_contentful_paint (metric results ''largest-contentful-paint'')),
        Console_log (Total_size (metric results ''total-byte-weight'')),
        Console_log Separator]"

text \<open>Line 63: the URL of the request.\<close>

definition results_endpoint :: "world \<Rightarrow> string" where
  "results_endpoint w = API_URL w @ ''/api/lighthouse/results''"

text \<open>
  The \<^verbatim>\<open>try\<close> block, lines 38 to 69. When \<^verbatim>\<open>results\<close> is \<^verbatim>\<open>undefined\<close>, line 39
  logs and the read \<^verbatim>\<open>results.finalUrl\<close> of line 40 throws.
\<close>

definition send_results :: "world \<Rightarrow> string \<Rightarrow> lhr option \<Rightarrow> event list \<times> (error + unit)" where
  "send_results w test_id results =
     (case results of
        None \<Rightarrow> ([Console_log (Results_for test_id)], Inl (type_error ''undefined'' ''finalUrl''))
      | Some r \<Rightarrow>
          (case axios_post w (results_endpoint w) test_id r (toISOString w) of
             Some e \<Rightarrow>
               (summary test_id r @ [Post (results_endpoint w) test_id r (toISOString w)], Inl e)
           | None \<Rightarrow>
               (summary test_id r
                  @ [Post (results_endpoint w) test_id r (toISOString w), Console_log Results_sent],
                Inr ())))"

text \<open>The function: the \<^verbatim>\<open>catch\<close> of lines 70 to 72 logs the error and returns.\<close>

definition sendResultsToAPI :: "world \<Rightarrow> string \<Rightarrow> lhr option \<Rightarrow> event list \<times> (error + unit)" where
  "sendResultsToAPI w test_id results =
     (case snd (send_results w test_id results) of
        Inl e \<Rightarrow> (fst (send_results w test_id results) @ [Console_error (Send_error e)], Inr ())
      | Inr u \<Rightarrow> (fst (send_results w test_id results), Inr ()))"

subsection \<open>The request handler (lines 94 to 166)\<close>

text \<open>
  A request, as the handler reads it: \<^verbatim>\<open>req.method\<close>; the \<^verbatim>\<open>pathname\<close> of
  \<^verbatim>\<open>new URL(req.url, ...)\<close> of line 106, or the error that constructor throws; and what
  \<^verbatim>\<open>parseJSONBody(req)\<close> settles with: the parsed body, or the error of \<^verbatim>\<open>JSON.parse\<close>.
\<close>

record request =
  req_method :: string
  pathname :: "error + string"
  json_body :: "error + json"

text \<open>Lines 89 to 92; the content type is \<^verbatim>\<open>application/json\<close>.\<close>

definition sendJSONResponse :: "json \<Rightarrow> nat \<Rightarrow> event list" where
  "sendJSONResponse data statusCode = [Response statusCode (Some data)]"

text \<open>Lines 96 to 98.\<close>

definition cors_headers :: "event list" where
  "cors_headers =
     [Set_header ''Access-Control-Allow-Origin'' ''*'',
      Set_header ''Access-Control-Allow-Methods'' ''GET, POST, OPTIONS'',
      Set_header ''Access-Control-Allow-Headers'' ''Content-Type'']"

definition error_body :: "string \<Rightarrow> json" where
  "error_body msg = JObject [(''error'', JString msg)]"

text \<open>Line 124: \<^verbatim>\<open>`test_${Date.now()}_${Math.random().toString(36).substr(2, 9)}`\<close>.\<close>

definition testId :: "world \<Rightarrow> string" where
  "testId w = ''test_'' @ show_nat (Date_now w) @ ''_'' @ Math_random_suffix w"

text \<open>Lines 129 to 133.\<close>

definition pending_body :: "string \<Rightarrow> json" where
  "pending_body test_id =
     JObject [(''id'', JString test_id),
              (''status'', JString ''pending''),
              (''message'', JString ''Test Lighthouse en cours...'')]"

text \<open>
  Lines 136 to 143, the promise chain \<^verbatim>\<open>executeLighthouse(...).then(...).catch(...)\<close>:
  its events, and the errors that no handler takes (a rejection nobody handles ends a
  Node process). The promise of \<^verbatim>\<open>sendResultsToAPI\<close> is dropped, so an error of it
  would be one of these; an error of \<^verbatim>\<open>executeLighthouse\<close> goes to the \<^verbatim>\<open>catch\<close>.
\<close>

definition background :: "world \<Rightarrow> string \<Rightarrow> json \<Rightarrow> json option \<Rightarrow> event list \<times> error list" where
  "background w test_id url options =
     (case snd (executeLighthouse w url options) of
        Inr results \<Rightarrow>
          (fst (executeLighthouse w url options)
             @ [Console_log (Finished test_id)]
             @ fst (sendResultsToAPI w test_id results),
           case snd (sendResultsToAPI w test_id results) of Inl e \<Rightarrow> [e] | Inr u \<Rightarrow> [])
      | Inl e \<Rightarrow>
          (fst (executeLighthouse w url options)
             @ [Console_error (Lighthouse_error test_id (message e))],
           []))"

text \<open>
  Lines 111 to 143, the branch of \<^verbatim>\<open>POST /analyze\<close>: its events, and \<open>Inl\<close> the
  error it throws to the \<^verbatim>\<open>catch\<close> of line 162, or \<open>Inr\<close> the errors nobody handles.
  \<^verbatim>\<open>sendJSONResponse\<close> of line 129 runs before \<^verbatim>\<open>executeLighthouse\<close> is called on line
  136; that call runs to its first \<^verbatim>\<open>await\<close> (it calls \<^verbatim>\<open>puppeteer.launch\<close>) and the
  rest of the chain runs after the handler has returned.
\<close>

definition analyze :: "world \<Rightarrow> request \<Rightarrow> event list \<times> (error + error list)" where
  "analyze w req =
     (case json_body req of
        Inl e \<Rightarrow> ([], Inl e)
      | Inr body \<Rightarrow>
          (case get_property body ''url'' of
             Inl e \<Rightarrow> ([], Inl e)
           | Inr None \<Rightarrow> (sendJSONResponse (error_body ''URL requise'') 400, Inr [])
           | Inr (Some url) \<Rightarrow>
               if \<not> truthy url then (sendJSONResponse (error_body ''URL requise'') 400, Inr [])
               else if \<not> new_URL_ok w url then
                 (sendJSONResponse (error_body ''URL invalide'') 400, Inr [])
               else
                 ([Console_log (Starting url (testId w))]
                    @ sendJSONResponse (pending_body (testId w)) 200
                    @ fst (background w (testId w) url (property body ''options'')),
                  Inr (snd (background w (testId w) url (property body ''options''))))))"

text \<open>Lines 146 to 150.\<close>

definition health_body :: "world \<Rightarrow> json" where
  "health_body w =
     JObject [(''status'', JString ''OK''),
              (''timestamp'', JString (toISOString w)),
              (''service'', JString ''Lighthouse Microservice'')]"

text \<open>Lines 153 to 159; \<^verbatim>\<open>[CHR 0xC3, CHR 0xA9]\<close> is the letter e with an acute accent.\<close>

definition not_found_body :: json where
  "not_found_body =
     JObject [(''error'', JString (''Endpoint non trouv'' @ [CHR 0xC3, CHR 0xA9])),
              (''availableEndpoints'',
                 JArray [JString ''POST /analyze - Lancer un test Lighthouse'',
                         JString (''GET /health - V'' @ [CHR 0xC3, CHR 0xA9] @ ''rification de sant''
                                    @ [CHR 0xC3, CHR 0xA9])])]"

text \<open>Lines 110 to 160, the \<^verbatim>\<open>try\<close> block.\<close>

definition route :: "world \<Rightarrow> request \<Rightarrow> string \<Rightarrow> event list \<times> (error + error list)" where
  "route w req path =
     (if req_method req = ''POST'' \<and> path = ''/analyze'' then analyze w req
      else if req_method req = ''GET'' \<and> path = ''/health'' then
        (sendJSONResponse (health_body w) 200, Inr [])
      else (sendJSONResponse not_found_body 404, Inr []))"

text \<open>
  The handler: the events of one request and of the work it starts, and the errors
  nobody handles. An error of line 106 rejects the handler's own promise.
\<close>

definition request_handler :: "world \<Rightarrow> request \<Rightarrow> event list \<times> error list" where
  "request_handler w req =
     (if req_method req = ''OPTIONS'' then (cors_headers @ [Response 200 None], [])
      else
        (case pathname req of
           Inl e \<Rightarrow> (cors_headers, [e])
         | Inr path \<Rightarrow>
             (case snd (route w req path) of
                Inl e \<Rightarrow>
                  (cors_headers @ fst (route w req path)
                     @ [Console_error (Server_error e)]
                     @ sendJSONResponse (error_body ''Erreur interne du serveur'') 500,
                   [])
              | Inr unhandled \<Rightarrow> (cors_headers @ fst (route w req path), unhandled))))"

section \<open>Vocabulary of the properties\<close>

fun is_response :: "event \<Rightarrow> bool" where
  "is_response (Response status body) = True"
| "is_response _ = False"

fun is_post :: "event \<Rightarrow> bool" where
  "is_post (Post url test_id results timestamp) = True"
| "is_post _ = False"

text \<open>The browsers a run releases, in order.\<close>

fun released :: "event list \<Rightarrow> browser list" where
  "released [] = []"
| "released (Close b # evs) = b # released evs"
| "released (e # evs) = released evs"

text \<open>
  A request that line 110 routes to the analysis and that passes both checks: its body
  parses to a value other than \<^verbatim>\<open>null\<close> whose \<^verbatim>\<open>url\<close> is truthy and parses as a URL.
\<close>

definition valid_request :: "world \<Rightarrow> request \<Rightarrow> json \<Rightarrow> json \<Rightarrow> bool" where
  "valid_request w req body url \<longleftrightarrow>
     req_method req = ''POST'' \<and> pathname req = Inr ''/analyze'' \<and> json_body req = Inr body \<and>
     body \<noteq> JNull \<and> property body ''url'' = Some url \<and> truthy url \<and> new_URL_ok w url"

text \<open>The lines a run writes with \<^verbatim>\<open>console.error\<close>, in order.\<close>

fun error_lines :: "event list \<Rightarrow> log_line list" where
  "error_lines [] = []"
| "error_lines (Console_error l # evs) = l # error_lines evs"
| "error_lines (e # evs) = error_lines evs"

text \<open>Reading a decimal numeral back, to tell two of them apart.\<close>

definition digit_value :: "char \<Rightarrow> nat" where
  "digit_value c = length (takeWhile (\<lambda>d. d \<noteq> c) ''0123456789'')"

definition read_nat :: "string \<Rightarrow> nat" where
  "read_nat s = foldl (\<lambda>n c. 10 * n + digit_value c) 0 s"

section \<open>Example inputs\<close>

text \<open>
  A report with a score of 0.95 and one of 0.40, as the decimal literals denote them, a
  category without a score, one audit with a display value and one without.
\<close>

definition example_report :: lhr where
  "example_report =
     \<lparr>finalUrl = None,
      requestedUrl = Some ''https://example.com/'',
      categories =
        Some [(''performance'', \<lparr>score = Score (binary64 (95 / 100))\<rparr>),
              (''seo'', \<lparr>score = Score (binary64 (40 / 100))\<rparr>),
              (''accessibility'', \<lparr>score = Score_null\<rparr>)],
      audits =
        Some [(''first-contentful-paint'', \<lparr>displayValue = Some ''1.2 s''\<rparr>),
              (''total-byte-weight'', \<lparr>displayValue = None\<rparr>)]\<rparr>"

text \<open>
  A world in which every call succeeds; for the examples a value parses as a URL when it
  is a string that starts with \<^verbatim>\<open>https://\<close>.
\<close>

definition example_world :: world where
  "example_world =
     \<lparr>new_URL_ok = (\<lambda>v. case v of JString s \<Rightarrow> take 8 s = ''https://'' | _ \<Rightarrow> False),
      Date_now = 1700000000000,
      Math_random_suffix = ''k3x9q2m1z'',
      puppeteer_launch = Inr 1,
      wsEndpoint_port = (\<lambda>b. Inr (Finite 9222)),
      lighthouse = (\<lambda>url flags. Inr (Some (Runner_result (Some example_report)))),
      browser_close = (\<lambda>b. None),
      axios_post = (\<lambda>url test_id results timestamp. None),
      toISOString = ''2023-11-14T22:13:20.000Z'',
      env_API_URL = None\<rparr>"

definition example_body :: json where
  "example_body = JObject [(''url'', JString ''https://example.com/'')]"

definition example_request :: request where
  "example_request =
     \<lparr>req_method = ''POST'', pathname = Inr ''/analyze'', json_body = Inr example_body\<rparr>"

definition example_error :: error where
  "example_error = Error ''Error'' ''connect ECONNREFUSED 127.0.0.1:3000''"

text \<open>The same world, but \<^verbatim>\<open>lighthouse\<close> rejects.\<close>

definition failing_engine :: world where
  "failing_engine = example_world\<lparr>lighthouse := \<lambda>url flags. Inl example_error\<rparr>"

text \<open>The same world, but \<^verbatim>\<open>lighthouse\<close> resolves with an object without \<^verbatim>\<open>lhr\<close>.\<close>

definition no_report :: world where
  "no_report = example_world\<lparr>lighthouse := \<lambda>url flags. Inr (Some (Runner_result None))\<rparr>"

text \<open>The same, but \<^verbatim>\<open>browser.close()\<close> rejects as well.\<close>

definition close_error :: error where
  "close_error = Error ''Error'' ''Protocol error: Connection closed.''"

definition no_report_close_fails :: world where
  "no_report_close_fails = no_report\<lparr>browser_close := \<lambda>b. Some close_error\<rparr>"

text \<open>The same world, but \<^verbatim>\<open>axios.post\<close> rejects.\<close>

definition failing_post :: world where
  "failing_post = example_world\<lparr>axios_post := \<lambda>url test_id results timestamp. Some example_error\<rparr>"

text \<open>A second request in the same millisecond, for which the random suffix comes out
  the same: another URL, and another browser.\<close>

definition second_world :: world where
  "second_world = example_world\<lparr>puppeteer_launch := Inr 2\<rparr>"

definition second_request :: request where
  "second_request =
     example_request\<lparr>json_body := Inr (JObject [(''url'', JString ''https://example.org/'')])\<rparr>"

text \<open>
  A request body whose options name a port, and another job whose browser listens on
  that port (the browser of the example world listens on 9222).
\<close>

definition port_body :: json where
  "port_body =
     JObject [(''url'', JString ''https://example.com/''),
              (''options'', JObject [(''port'', JNumber (Finite 9333))])]"

definition other_job :: world where
  "other_job =
     example_world\<lparr>puppeteer_launch := Inr 2, wsEndpoint_port := \<lambda>b. Inr (Finite 9333)\<rparr>"

section \<open>Rounding to binary64\<close>

lemma rhe_le: "x \<le> of_int n \<Longrightarrow> round_half_even x \<le> n"
  unfolding round_half_even_def Let_def
  by (auto simp: floor_le_iff le_floor_iff)

lemma rhe_nonneg: "0 \<le> x \<Longrightarrow> 0 \<le> round_half_even x"
  unfolding round_half_even_def Let_def by auto

lemma rhe_close: "\<bar>of_int (round_half_even x) - x\<bar> \<le> 1 / 2"
proof -
  have "of_int \<lfloor>x\<rfloor> \<le> x" "x < of_int \<lfloor>x\<rfloor> + 1" by linarith+
  then show ?thesis unfolding round_half_even_def Let_def by auto
qed

lemma floor_log2_le:
  assumes "0 < q" shows "2 powi (floor_log2 q) \<le> q"
proof -
  obtain a b where ab: "quotient_of q = (a, b)" by (cases "quotient_of q")
  have b: "0 < b" using quotient_of_denom_pos[OF ab] .
  have q: "q = of_int a / of_int b" using quotient_of_div[OF ab] .
  have a: "0 < a" using assms b q by (simp add: zero_less_divide_iff)
  let ?e = "bitlen a - bitlen b"
  show ?thesis
  proof (cases "2 powi ?e \<le> q")
    case True then show ?thesis by (simp add: floor_log2_def ab)
  next
    case False
    have la: "1 \<le> bitlen a" using a bitlen_eq_zero_iff[of a] bitlen_nonneg[of a] by linarith
    have A: "(2::rat) ^ nat (bitlen a - 1) \<le> of_int a"
      using bitlen_bounds[OF a] by (metis of_int_le_iff of_int_numeral of_int_power)
    have B: "of_int b \<le> (2::rat) ^ nat (bitlen b)"
      using bitlen_bounds[OF b] by (metis less_imp_le of_int_le_iff of_int_numeral of_int_power)
    have "2 powi (?e - 1) = (2::rat) powi ((bitlen a - 1) - bitlen b)"
      by (simp add: algebra_simps)
    also have "\<dots> = 2 powi (bitlen a - 1) / 2 powi (bitlen b)"
      by (rule power_int_diff) simp
    also have "\<dots> = 2 ^ nat (bitlen a - 1) / 2 ^ nat (bitlen b)"
      using la bitlen_nonneg[of b] by (simp add: power_int_nonneg_exp)
    also have "\<dots> \<le> of_int a / of_int b"
      using frac_le[where x = "(2::rat) ^ nat (bitlen a - 1)" and y = "of_int a" and w = "of_int b"
          and z = "2 ^ nat (bitlen b)"] A B a b
      by simp
    finally have "2 powi (?e - 1) \<le> q" unfolding q .
    then show ?thesis using False by (simp add: floor_log2_def ab)
  qed
qed

lemma floor_log2_less:
  assumes "0 < q" shows "q < 2 powi (floor_log2 q + 1)"
proof -
  obtain a b where ab: "quotient_of q = (a, b)" by (cases "quotient_of q")
  have b: "0 < b" using quotient_of_denom_pos[OF ab] .
  have q: "q = of_int a / of_int b" using quotient_of_div[OF ab] .
  have a: "0 < a" using assms b q by (simp add: zero_less_divide_iff)
  let ?e = "bitlen a - bitlen b"
  show ?thesis
  proof (cases "2 powi ?e \<le> q")
    case False then show ?thesis by (simp add: floor_log2_def ab)
  next
    case True
    have lb: "1 \<le> bitlen b" using b bitlen_eq_zero_iff[of b] bitlen_nonneg[of b] by linarith
    have A: "of_int a < (2::rat) ^ nat (bitlen a)"
      using bitlen_bounds[OF a] by (metis of_int_less_iff of_int_numeral of_int_power)
    have B: "(2::rat) ^ nat (bitlen b - 1) \<le> of_int b"
      using bitlen_bounds[OF b] by (metis of_int_le_iff of_int_numeral of_int_power)
    have "of_int a / of_int b < (2::rat) ^ nat (bitlen a) / 2 ^ nat (bitlen b - 1)"
      using frac_less[where x = "of_int a" and y = "(2::rat) ^ nat (bitlen a)"
          and w = "(2::rat) ^ nat (bitlen b - 1)" and z = "of_int b"] A B a b
      by simp
    also have "\<dots> = 2 powi (bitlen a) / 2 powi (bitlen b - 1)"
      using lb bitlen_nonneg[of a] by (simp add: power_int_nonneg_exp)
    also have "\<dots> = (2::rat) powi (bitlen a - (bitlen b - 1))"
      by (rule power_int_diff[symmetric]) simp
    also have "\<dots> = 2 powi (?e + 1)" by (simp add: algebra_simps)
    finally have "q < 2 powi (?e + 1)" unfolding q .
    then show ?thesis using True by (simp add: floor_log2_def ab)
  qed
qed

lemma floor_log2_upper:
  assumes "0 < q" "q \<le> 100" shows "floor_log2 q \<le> 6"
proof -
  have "2 powi (floor_log2 q) \<le> q" using floor_log2_le[OF assms(1)] .
  also have "q < 2 powi 7" using assms(2) by simp
  finally have "floor_log2 q < 7"
    by (rule power_int_le_imp_less_exp[rotated]) simp_all
  then show ?thesis by simp
qed

lemma floor_log2_eqI:
  assumes "0 < q" "2 powi e \<le> q" "q < 2 powi (e + 1)"
  shows "floor_log2 q = e"
proof -
  have "(2::rat) powi (floor_log2 q) < 2 powi (e + 1)"
    using floor_log2_le[OF assms(1)] assms(3) by simp
  then have 1: "floor_log2 q < e + 1"
    by (metis less_irrefl linorder_not_less one_le_numeral power_int_increasing
        order.strict_trans2)
  have "(2::rat) powi e < 2 powi (floor_log2 q + 1)"
    using floor_log2_less[OF assms(1)] assms(2) by simp
  then have 2: "e < floor_log2 q + 1"
    by (metis less_irrefl linorder_not_less one_le_numeral power_int_increasing
        order.strict_trans2)
  from 1 2 show ?thesis by simp
qed

lemma round_half_even_eqI:
  assumes "of_int m - 1 / 2 < x" "x < of_int m + 1 / 2"
  shows "round_half_even x = m"
proof (cases "x < of_int m")
  case True
  then have f: "\<lfloor>x\<rfloor> = m - 1" using assms(1) by (intro floor_unique) auto
  show ?thesis using assms True by (simp add: round_half_even_def Let_def f)
next
  case False
  then have f: "\<lfloor>x\<rfloor> = m" using assms(2) by (intro floor_unique) auto
  show ?thesis using assms False by (simp add: round_half_even_def Let_def f)
qed

lemma binary64_close:
  assumes "0 < p" "p \<le> 100"
  shows "\<exists>v. binary64 p = Finite v \<and> 0 \<le> v \<and> v \<le> 100 \<and> \<bar>v - p\<bar> \<le> 1 / 2 ^ 47"
proof -
  define e where "e = max (floor_log2 p) (- 1022)"
  define ulp :: rat where "ulp = 2 powi (e - 52)"
  define m where "m = round_half_even (p / ulp)"
  have e: "e \<le> 6" using floor_log2_upper[OF assms] by (simp add: e_def)
  have ulp: "0 < ulp" by (simp add: ulp_def)
  have "100 / ulp = 100 * 2 powi (52 - e)"
    by (simp add: ulp_def power_int_diff field_simps)
  also have "\<dots> = of_int (100 * 2 ^ nat (52 - e))"
    using e by (simp add: power_int_nonneg_exp)
  finally have N: "100 / ulp = of_int (100 * 2 ^ nat (52 - e))" .
  have "p / ulp \<le> 100 / ulp" using assms ulp by (simp add: divide_right_mono)
  then have "m \<le> 100 * 2 ^ nat (52 - e)" unfolding m_def N by (rule rhe_le)
  then have "of_int m \<le> (of_int (100 * 2 ^ nat (52 - e)) :: rat)" by (simp only: of_int_le_iff)
  then have "of_int m \<le> 100 / ulp" using N by simp
  then have up: "of_int m * ulp \<le> 100" using ulp by (simp add: pos_le_divide_eq)
  have "0 \<le> p / ulp" using ulp assms(1) by simp
  then have "0 \<le> m" unfolding m_def by (rule rhe_nonneg)
  then have lo: "0 \<le> of_int m * ulp" using ulp by simp
  have "ulp \<le> 2 powi (- 46)"
    unfolding ulp_def using e by (intro power_int_increasing) simp_all
  then have small: "ulp \<le> 1 / 2 ^ 46" by (simp add: power_int_minus_divide)
  have "of_int m * ulp - p = (of_int m - p / ulp) * ulp"
    using ulp by (simp add: field_simps)
  then have "\<bar>of_int m * ulp - p\<bar> = \<bar>of_int m - p / ulp\<bar> * \<bar>ulp\<bar>"
    by (simp only: abs_mult)
  then have "\<bar>of_int m * ulp - p\<bar> = \<bar>of_int m - p / ulp\<bar> * ulp"
    using ulp by simp
  also have "\<dots> \<le> 1 / 2 * ulp"
    using rhe_close[of "p / ulp"] ulp unfolding m_def by (intro mult_right_mono) simp_all
  also have "\<dots> \<le> 1 / 2 ^ 47" using small by simp
  finally have close: "\<bar>of_int m * ulp - p\<bar> \<le> 1 / 2 ^ 47" .
  have "binary64 p =
      (if (2::rat) ^ 1024 \<le> of_int m * ulp then Infinity else Finite (of_int m * ulp))"
    unfolding m_def ulp_def e_def using assms(1) by (simp add: binary64_def Let_def)
  moreover have "\<not> (2::rat) ^ 1024 \<le> of_int m * ulp" using up by simp
  ultimately have "binary64 p = Finite (of_int m * ulp)" by (simp only: if_False)
  then show ?thesis using up lo close by blast
qed

lemma binary64_eqI:
  assumes "0 < q" "2 powi e \<le> q" "q < 2 powi (e + 1)" "- 1022 \<le> e"
    and "of_int m - 1 / 2 < q / 2 powi (e - 52)" "q / 2 powi (e - 52) < of_int m + 1 / 2"
    and "of_int m * 2 powi (e - 52) = d" "d < 2 ^ 1024"
  shows "binary64 q = Finite d"
proof -
  have e: "max (floor_log2 q) (- 1022) = e"
    using floor_log2_eqI[OF assms(1-3)] assms(4) by simp
  have m: "round_half_even (q / 2 powi (e - 52)) = m"
    using assms(5,6) by (rule round_half_even_eqI)
  have "binary64 q = (if (2::rat) ^ 1024 \<le> d then Infinity else Finite d)"
    using assms(1) by (simp add: binary64_def Let_def e m assms(7))
  then show ?thesis using assms(8) by simp
qed

lemma times_100_close:
  assumes "0 \<le> q" "q \<le> 1"
  shows "\<exists>v. times_number (Finite q) (Finite 100) = Finite v \<and> 0 \<le> v \<and> v \<le> 100
            \<and> \<bar>v - 100 * q\<bar> \<le> 1 / 2 ^ 47"
proof (cases "q = 0")
  case True then show ?thesis by (simp add: binary64_def)
next
  case False
  then have "0 < q * 100" "q * 100 \<le> 100" using assms by simp_all
  from binary64_close[OF this] show ?thesis by (simp add: mult.commute)
qed

lemma Math_round_of_int: "Math_round (Finite (of_int n)) = Finite (of_int n)"
proof -
  have "\<lfloor>(of_int n :: rat) + 1 / 2\<rfloor> = n" by (rule floor_unique) simp_all
  then show ?thesis by simp
qed

lemma rounded_score_close:
  assumes "score data = Score (Finite q)" "0 \<le> q" "q \<le> 1"
  shows "\<exists>n. rounded_score data = Finite (of_int n) \<and> 0 \<le> n \<and> n \<le> 100
            \<and> \<bar>of_int n - 100 * q\<bar> \<le> 1 / 2 + 1 / 2 ^ 47"
proof -
  have s: "score_or_0 (score data) = Finite q" using assms(1) by simp
  obtain v where v: "times_number (Finite q) (Finite 100) = Finite v" "0 \<le> v" "v \<le> 100"
      "\<bar>v - 100 * q\<bar> \<le> 1 / 2 ^ 47"
    using times_100_close[OF assms(2,3)] by blast
  have "rounded_score data = Finite (of_int \<lfloor>v + 1 / 2\<rfloor>)"
    using v(1) by (simp add: rounded_score_def s)
  moreover have "0 \<le> \<lfloor>v + 1 / 2\<rfloor>" using v(2) by simp
  moreover have "\<lfloor>v + 1 / 2\<rfloor> \<le> 100" using v(3) by (simp add: floor_le_iff)
  moreover have "\<bar>of_int \<lfloor>v + 1 / 2\<rfloor> - v\<bar> \<le> 1 / 2" by linarith
  then have "\<bar>of_int \<lfloor>v + 1 / 2\<rfloor> - 100 * q\<bar> \<le> 1 / 2 + 1 / 2 ^ 47"
    using v(4) by linarith
  ultimately show ?thesis by blast
qed

lemma emoji_of_int:
  "emoji_of (Finite (of_int n)) = (if 90 \<le> n then Green else if 50 \<le> n then Yellow else Red)"
  by (simp add: emoji_of_def)

text \<open>
  The literals \<^verbatim>\<open>0.95\<close> and \<^verbatim>\<open>0.40\<close> and their products with \<^verbatim>\<open>100\<close>: neither
  literal is a binary64 value, and neither product is exact, but both products round to
  the integer.
\<close>

lemma literal_095: "binary64 (19 / 20) = Finite (4278419646001971 / 4503599627370496)"
  by (rule binary64_eqI[where e = "- 1" and m = 8556839292003942]) simp_all

lemma literal_040: "binary64 (2 / 5) = Finite (3602879701896397 / 9007199254740992)"
  by (rule binary64_eqI[where e = "- 2" and m = 7205759403792794]) simp_all

lemma product_095: "binary64 (4278419646001971 / 4503599627370496 * 100) = Finite 95"
  by (rule binary64_eqI[where e = 6 and m = 6685030696878080]) simp_all

lemma product_040: "binary64 (3602879701896397 / 9007199254740992 * 100) = Finite 40"
  by (rule binary64_eqI[where e = 5 and m = 5629499534213120]) simp_all

lemma rounded_095: "rounded_score \<lparr>score = Score (binary64 (19 / 20))\<rparr> = Finite 95"
  using Math_round_of_int[of 95] product_095 by (simp add: rounded_score_def literal_095)

lemma rounded_040: "rounded_score \<lparr>score = Score (binary64 (2 / 5))\<rparr> = Finite 40"
  using Math_round_of_int[of 40] product_040 by (simp add: rounded_score_def literal_040)

lemma rounded_zero:
  assumes "score data = Score_missing \<or> score data = Score_null \<or> score data = Score (Finite 0)"
  shows "rounded_score data = Finite 0"
  using assms Math_round_of_int[of 0] by (auto simp: rounded_score_def binary64_def)

lemma emoji_of_95: "emoji_of (Finite 95) = Green"
  by (simp add: emoji_of_def)

lemma emoji_of_40: "emoji_of (Finite 40) = Red"
  by (simp add: emoji_of_def)

lemma emoji_of_0: "emoji_of (Finite 0) = Red"
  by (simp add: emoji_of_def)

section \<open>Decimal numerals and test ids\<close>

lemma digit_cases: "d < 10 \<Longrightarrow> d = 0 \<or> d = 1 \<or> d = 2 \<or> d = 3 \<or> d = 4 \<or> d = 5 \<or> d = 6 \<or> d = 7 \<or> d = 8 \<or> d = (9::nat)"
  by arith

lemma digit_value_digit_char: "d < 10 \<Longrightarrow> digit_value (digit_char d) = d"
  using digit_cases[of d] by (auto simp: digit_value_def digit_char_def)

lemma digit_char_not_underscore: "d < 10 \<Longrightarrow> digit_char d \<noteq> CHR ''_''"
  using digit_cases[of d] by (auto simp: digit_char_def)

lemma read_nat_snoc: "read_nat (s @ [c]) = 10 * read_nat s + digit_value c"
  by (simp add: read_nat_def)

lemma read_nat_show_nat: "read_nat (show_nat n) = n"
proof (induction n rule: show_nat.induct)
  case (1 n)
  show ?case
  proof (cases "n < 10")
    case True
    then show ?thesis
      by (subst show_nat.simps) (simp add: read_nat_def digit_value_digit_char)
  next
    case False
    then have "read_nat (show_nat (n div 10)) = n div 10" using 1 by simp
    then show ?thesis using False
      by (subst show_nat.simps) (simp add: read_nat_snoc digit_value_digit_char)
  qed
qed

lemma show_nat_inject: "show_nat m = show_nat n \<Longrightarrow> m = n"
  by (metis read_nat_show_nat)

lemma show_nat_no_underscore: "CHR ''_'' \<notin> set (show_nat n)"
proof (induction n rule: show_nat.induct)
  case (1 n)
  show ?case
  proof (cases "n < 10")
    case True
    then show ?thesis
      using digit_char_not_underscore[of n] by (subst show_nat.simps) auto
  next
    case False
    then have "CHR ''_'' \<notin> set (show_nat (n div 10))" using 1 by simp
    then show ?thesis using False digit_char_not_underscore[of "n mod 10"]
      by (subst show_nat.simps) auto
  qed
qed

lemma split_at_first:
  "x \<notin> set xs \<Longrightarrow> x \<notin> set xs' \<Longrightarrow> xs @ x # ys = xs' @ x # ys' \<Longrightarrow> xs = xs' \<and> ys = ys'"
proof (induction xs arbitrary: xs')
  case Nil
  then show ?case by (cases xs') auto
next
  case (Cons a xs)
  then show ?case by (cases xs') auto
qed

lemma testId_eq_iff:
  "testId w = testId w' \<longleftrightarrow>
     Date_now w = Date_now w' \<and> Math_random_suffix w = Math_random_suffix w'"
proof
  assume "testId w = testId w'"
  then have "show_nat (Date_now w) @ CHR ''_'' # Math_random_suffix w =
             show_nat (Date_now w') @ CHR ''_'' # Math_random_suffix w'"
    by (simp add: testId_def)
  then have "show_nat (Date_now w) = show_nat (Date_now w') \<and>
             Math_random_suffix w = Math_random_suffix w'"
    using show_nat_no_underscore by (blast dest: split_at_first)
  then show "Date_now w = Date_now w' \<and> Math_random_suffix w = Math_random_suffix w'"
    using show_nat_inject by blast
next
  assume "Date_now w = Date_now w' \<and> Math_random_suffix w = Math_random_suffix w'"
  then show "testId w = testId w'" by (simp add: testId_def)
qed

lemma testId_nonempty: "testId w \<noteq> []"
  by (simp add: testId_def)

lemma testId_example: "testId example_world = ''test_1700000000000_k3x9q2m1z''"
  by (simp add: testId_def example_world_def show_nat.simps digit_char_def)

section \<open>The events of a run\<close>

lemma executeLighthouse_events:
  "fst (executeLighthouse w url options) =
     (case puppeteer_launch w of Inl e \<Rightarrow> [Launch]
      | Inr b \<Rightarrow> Launch # fst (run_audit w b url options) @ [Close b])"
  by (simp add: executeLighthouse_def split: sum.splits)

lemma run_audit_events:
  "fst (run_audit w b url options) =
     (case wsEndpoint_port w b of Inl e \<Rightarrow> []
      | Inr port \<Rightarrow> [Lighthouse url (lighthouse_flags port options)])"
  by (simp add: run_audit_def split: sum.splits)

lemma sendResultsToAPI_returns: "snd (sendResultsToAPI w t results) = Inr ()"
  by (simp add: sendResultsToAPI_def split: sum.splits)

lemma background_unhandled: "snd (background w t url options) = []"
  by (simp add: background_def sendResultsToAPI_returns split: sum.splits)

lemma no_response_executeLighthouse:
  "filter is_response (fst (executeLighthouse w url options)) = []"
  by (simp add: executeLighthouse_events run_audit_events split: sum.splits)

lemma no_response_summary: "filter is_response (summary t r) = []"
  by (simp add: summary_def score_lines_def score_line_def o_def split: option.splits)

lemma no_response_sendResultsToAPI:
  "filter is_response (fst (sendResultsToAPI w t results)) = []"
  by (simp add: sendResultsToAPI_def send_results_def no_response_summary
      split: sum.splits option.splits)

lemma no_response_background:
  "filter is_response (fst (background w t url options)) = []"
  by (simp add: background_def no_response_executeLighthouse no_response_sendResultsToAPI
      split: sum.splits)

lemma background_starts_with_launch:
  "\<exists>rest. fst (background w t url options) = Launch # rest"
  by (simp add: background_def executeLighthouse_events split: sum.splits)

lemma valid_requestD:
  assumes "valid_request w req body url"
  shows "request_handler w req =
    (cors_headers @ [Console_log (Starting url (testId w)), Response 200 (Some (pending_body (testId w)))]
       @ fst (background w (testId w) url (property body ''options'')),
     snd (background w (testId w) url (property body ''options'')))"
  using assms
  by (simp add: valid_request_def request_handler_def route_def analyze_def get_property_def
      sendJSONResponse_def)

lemma accepted_responses:
  assumes "valid_request w req body url"
  shows "filter is_response (fst (request_handler w req)) =
           [Response 200 (Some (pending_body (testId w)))]"
  by (simp add: valid_requestD[OF assms] no_response_background cors_headers_def)

lemma released_append: "released (xs @ ys) = released xs @ released ys"
  by (induction xs rule: released.induct) simp_all

lemma released_run_audit: "released (fst (run_audit w b url options)) = []"
  by (simp add: run_audit_events split: sum.splits)

lemma released_executeLighthouse:
  "released (fst (executeLighthouse w url options)) =
     (case puppeteer_launch w of Inl e \<Rightarrow> [] | Inr b \<Rightarrow> [b])"
  by (simp add: executeLighthouse_events released_append released_run_audit split: sum.splits)

lemma launches_executeLighthouse:
  "length (filter (\<lambda>e. e = Launch) (fst (executeLighthouse w url options))) = 1"
  by (simp add: executeLighthouse_events run_audit_events split: sum.splits)

lemma map_of_foldl_update_rev:
  "map_of (foldl (\<lambda>flags (k, v). AList.update k v flags) base kvs) =
     map_of base ++ map_of (rev kvs)"
proof (induction kvs arbitrary: base)
  case Nil
  show ?case by simp
next
  case (Cons kv kvs)
  obtain k v where kv: "kv = (k, v)" by (cases kv)
  have "map_of (foldl (\<lambda>flags (k, v). AList.update k v flags) base (kv # kvs)) =
        map_of (AList.update k v base) ++ map_of (rev kvs)"
    using Cons[of "AList.update k v base"] by (simp add: kv)
  also have "\<dots> = map_of base ++ map_of (rev (kv # kvs))"
    by (simp add: kv update_conv' map_add_upd_left fun_eq_iff map_add_def split: option.splits)
  finally show ?case .
qed

lemma port_flag_exact:
  "map_of (lighthouse_flags port options) ''port'' =
     (case map_of (rev (spread options)) ''port'' of
        None \<Rightarrow> Some (JNumber port)
      | Some p \<Rightarrow> Some p)"
  by (simp add: lighthouse_flags_def map_of_foldl_update_rev map_add_def split: option.splits)

lemma executeLighthouse_trace:
  assumes "puppeteer_launch w = Inr b" "wsEndpoint_port w b = Inr port"
  shows "fst (executeLighthouse w url options) =
           [Launch, Lighthouse url (lighthouse_flags port options), Close b]"
  using assms by (simp add: executeLighthouse_events run_audit_events)

lemma posts_summary: "filter is_post (summary t r) = []"
  by (simp add: summary_def score_lines_def score_line_def o_def split: option.splits)

lemma posts_sendResultsToAPI:
  "length (filter is_post (fst (sendResultsToAPI w t results))) \<le> 1"
  by (simp add: sendResultsToAPI_def send_results_def posts_summary
      split: sum.splits option.splits)

lemma posts_executeLighthouse:
  "filter is_post (fst (executeLighthouse w url options)) = []"
  by (simp add: executeLighthouse_events run_audit_events split: sum.splits)

lemma posts_background:
  "length (filter is_post (fst (background w t url options))) \<le> 1"
  using posts_sendResultsToAPI[unfolded One_nat_def]
  by (simp add: background_def posts_executeLighthouse split: sum.splits)

lemma hd_summary: "hd (summary t r) = Console_log (Results_for t)"
  by (simp add: summary_def)

lemma sendResultsToAPI_post_fails:
  assumes "axios_post w (results_endpoint w) t r (toISOString w) = Some e"
  shows "fst (sendResultsToAPI w t (Some r)) =
           summary t r
             @ [Post (results_endpoint w) t r (toISOString w), Console_error (Send_error e)]"
  using assms by (simp add: sendResultsToAPI_def send_results_def)

lemma error_lines_append: "error_lines (xs @ ys) = error_lines xs @ error_lines ys"
  by (induction xs rule: error_lines.induct) simp_all

lemma example_valid:
  "valid_request example_world example_request example_body (JString ''https://example.com/'')"
  by (simp add: valid_request_def example_world_def example_request_def example_body_def)

lemma summary_example:
  "summary t example_report =
    [Console_log (Results_for t),
     Console_log (Tested_url (Some ''https://example.com/'')),
     Console_log Scores,
     Console_log (Score_line Green ''performance'' (Finite 95)),
     Console_log (Score_line Red ''seo'' (Finite 40)),
     Console_log (Score_line Red ''accessibility'' (Finite 0)),
     Console_log Metrics, Console_log (First_contentful_paint ''1.2 s''),
     Console_log (Largest_contentful_paint ''N/A''),
     Console_log (Total_size ''N/A''), Console_log Separator]"
  unfolding summary_def example_report_def score_lines_def score_line_def
  by (simp add: tested_url_def rounded_095 rounded_040 rounded_zero emoji_of_95 emoji_of_40
      emoji_of_0 metric_def display_value_def)

section \<open>The claims\<close>

subsection \<open>C1: the answer comes first\<close>

text \<open>
  \<^bold>\<open>C1.\<close> For every valid analysis request the handler writes the answer
  \<^verbatim>\<open>{id, status: "pending", message}\<close>, whose \<^verbatim>\<open>id\<close> is the test id, with status 200
  before the audit begins: the answer
  is the event just before \<^verbatim>\<open>puppeteer.launch\<close>, the first thing \<^verbatim>\<open>executeLighthouse\<close>
  does. Nothing after it is an answer, so the answers of the whole run are this one. They
  are the same in every world with the same clock and random suffix, whatever the launch,
  the engine, the release of the browser and the delivery do there; and no error of the
  background work is left unhandled.
\<close>

theorem response_precedes_audit:
  assumes "valid_request w req body url"
  shows "(\<exists>rest. fst (request_handler w req) =
            cors_headers
              @ [Console_log (Starting url (testId w)),
                 Response 200 (Some (pending_body (testId w))),
                 Launch]
              @ rest
          \<and> Launch # rest = fst (background w (testId w) url (property body ''options''))
          \<and> filter is_response rest = [])
       \<and> filter is_response (fst (request_handler w req)) =
           [Response 200 (Some (pending_body (testId w)))]
       \<and> (valid_request w' req body url \<and> Date_now w' = Date_now w
            \<and> Math_random_suffix w' = Math_random_suffix w \<longrightarrow>
            filter is_response (fst (request_handler w' req)) =
              filter is_response (fst (request_handler w req)))
       \<and> snd (request_handler w req) = []
       \<and> pending_body (testId w) =
           JObject [(''id'', JString (testId w)),
                    (''status'', JString ''pending''),
                    (''message'', JString ''Test Lighthouse en cours...'')]
       \<and> filter is_response (fst (request_handler w req)) =
           [Response 200
              (Some (JObject [(''id'', JString (testId w)),
                              (''status'', JString ''pending''),
                              (''message'', JString ''Test Lighthouse en cours...'')]))]"
proof -
  have body: "pending_body (testId w) =
           JObject [(''id'', JString (testId w)),
                    (''status'', JString ''pending''),
                    (''message'', JString ''Test Lighthouse en cours...'')]"
    by (simp add: pending_body_def)
  have answer: "filter is_response (fst (request_handler w req)) =
           [Response 200
              (Some (JObject [(''id'', JString (testId w)),
                              (''status'', JString ''pending''),
                              (''message'', JString ''Test Lighthouse en cours...'')]))]"
    using accepted_responses[OF assms] by (simp add: pending_body_def)
  have same: "filter is_response (fst (request_handler w' req)) =
              filter is_response (fst (request_handler w req))"
    if "valid_request w' req body url" "Date_now w' = Date_now w"
      "Math_random_suffix w' = Math_random_suffix w"
    using accepted_responses[OF that(1)] accepted_responses[OF assms] testId_eq_iff[of w' w] that
    by simp
  obtain rest where
    rest: "fst (background w (testId w) url (property body ''options'')) = Launch # rest"
    using background_starts_with_launch by blast
  have "filter is_response (Launch # rest) = []"
    using no_response_background[of w "testId w" url "property body ''options''"] rest by simp
  then have r: "filter is_response rest = []" by simp
  have c: "filter is_response cors_headers = []" by (simp add: cors_headers_def)
  have "(\<exists>rest. fst (request_handler w req) =
            cors_headers
              @ [Console_log (Starting url (testId w)),
                 Response 200 (Some (pending_body (testId w))),
                 Launch]
              @ rest
          \<and> Launch # rest = fst (background w (testId w) url (property body ''options''))
          \<and> filter is_response rest = [])"
    using rest r by (simp add: valid_requestD[OF assms])
  moreover have "snd (request_handler w req) = []"
    by (simp add: valid_requestD[OF assms] background_unhandled)
  ultimately show ?thesis using accepted_responses[OF assms] same body answer by blast
qed

text \<open>The example request in the example world: it is valid, and its one answer is the
  pending one.\<close>

theorem response_precedes_audit_witness:
  "valid_request example_world example_request example_body (JString ''https://example.com/'')
   \<and> filter is_response (fst (request_handler example_world example_request)) =
       [Response 200
          (Some (JObject [(''id'', JString ''test_1700000000000_k3x9q2m1z''),
                          (''status'', JString ''pending''),
                          (''message'', JString ''Test Lighthouse en cours...'')]))]
   \<and> snd (request_handler example_world example_request) = []"
  using response_precedes_audit[OF example_valid] example_valid by (simp add: testId_example)

subsection \<open>C2: the two checks of the URL\<close>

text \<open>
  \<^bold>\<open>C2\<close>, as the code has it. For every \<^verbatim>\<open>POST /analyze\<close> request whose body parses to
  a value other than \<^verbatim>\<open>null\<close>: if \<^verbatim>\<open>url\<close> is missing or falsy (the empty string
  among others) the answer is 400 with the error \<^verbatim>\<open>URL requise\<close>, whatever
  \<^verbatim>\<open>new URL\<close> would say of it; otherwise, if \<^verbatim>\<open>new URL(url)\<close> throws, the answer is 400
  with the error \<^verbatim>\<open>URL invalide\<close>. In both cases the run is the three headers and that
  answer: no log line, no launch, nothing in the background.
\<close>

theorem bad_url_answers_400:
  assumes "req_method req = ''POST''" and "pathname req = Inr ''/analyze''"
    and "json_body req = Inr body" and "body \<noteq> JNull"
  shows "(\<not> truthy_opt (property body ''url'') \<longrightarrow>
            request_handler w req =
              (cors_headers @ [Response 400 (Some (error_body ''URL requise''))], []))
       \<and> (property body ''url'' = Some url \<and> truthy url \<and> \<not> new_URL_ok w url \<longrightarrow>
            request_handler w req =
              (cors_headers @ [Response 400 (Some (error_body ''URL invalide''))], []))"
  using assms
  by (cases "property body ''url''")
     (auto simp: request_handler_def route_def analyze_def get_property_def sendJSONResponse_def)

text \<open>A body without \<^verbatim>\<open>url\<close>, and one whose \<^verbatim>\<open>url\<close> is not a URL.\<close>

theorem bad_url_answers_400_witness:
  "request_handler example_world (example_request\<lparr>json_body := Inr (JObject [])\<rparr>) =
     (cors_headers @ [Response 400 (Some (error_body ''URL requise''))], [])
   \<and> request_handler example_world
        (example_request\<lparr>json_body := Inr (JObject [(''url'', JString ''example'')])\<rparr>) =
     (cors_headers @ [Response 400 (Some (error_body ''URL invalide''))], [])"
  using bad_url_answers_400[where req = "example_request\<lparr>json_body := Inr (JObject [])\<rparr>"
      and body = "JObject []" and w = example_world and url = JNull]
    bad_url_answers_400[where
      req = "example_request\<lparr>json_body := Inr (JObject [(''url'', JString ''example'')])\<rparr>"
      and body = "JObject [(''url'', JString ''example'')]" and w = example_world
      and url = "JString ''example''"]
  by (simp add: example_request_def example_world_def)

text \<open>
  The claim names the error \<^verbatim>\<open>URL required\<close>, for every request without a \<^verbatim>\<open>url\<close>.
  For the body \<^verbatim>\<open>{}\<close> the handler answers 400 with the error \<^verbatim>\<open>URL requise\<close>, and
  no answer of the run carries \<^verbatim>\<open>URL required\<close>. For the body \<^verbatim>\<open>null\<close>, which has
  no \<^verbatim>\<open>url\<close> either, the read \<^verbatim>\<open>body.url\<close> throws and the answer is the 500 of the
  \<^verbatim>\<open>catch\<close> of line 162.
\<close>

theorem url_required_counterexample:
  "fst (request_handler example_world (example_request\<lparr>json_body := Inr (JObject [])\<rparr>)) =
     cors_headers @ [Response 400 (Some (JObject [(''error'', JString ''URL requise'')]))]
   \<and> Response 400 (Some (JObject [(''error'', JString ''URL required'')]))
       \<notin> set (fst (request_handler example_world
                      (example_request\<lparr>json_body := Inr (JObject [])\<rparr>)))
   \<and> fst (request_handler example_world (example_request\<lparr>json_body := Inr JNull\<rparr>)) =
       cors_headers
         @ [Console_error (Server_error (type_error ''null'' ''url'')),
            Response 500 (Some (JObject [(''error'', JString ''Erreur interne du serveur'')]))]"
  by (simp add: request_handler_def route_def analyze_def get_property_def sendJSONResponse_def
      example_request_def error_body_def cors_headers_def)

subsection \<open>C3: a failing engine\<close>



subsection \<open>C4: the browser is released\<close>

text \<open>
  \<^bold>\<open>C4\<close>, as the code has it. For every run of \<^verbatim>\<open>executeLighthouse\<close>, whatever the
  port read, the engine and \<^verbatim>\<open>browser.close()\<close> itself do: it calls
  \<^verbatim>\<open>puppeteer.launch\<close> once; when that gives a browser, the run ends with
  \<^verbatim>\<open>browser.close()\<close> on it and releases nothing else and nothing before; when the
  launch fails there is no browser and nothing is released. So a run launches its own
  browser and releases no other. When the port of that browser is read, the run is the
  launch, the call of Lighthouse and the release, and the \<^verbatim>\<open>port\<close> the call passes is
  the port of the run's own browser unless the caller's options carry a \<^verbatim>\<open>port\<close>: that
  one, spread last, replaces it.
\<close>

theorem browser_released_on_every_path:
  "released (fst (executeLighthouse w url options)) =
     (case puppeteer_launch w of Inl e \<Rightarrow> [] | Inr b \<Rightarrow> [b])
   \<and> length (filter (\<lambda>e. e = Launch) (fst (executeLighthouse w url options))) = 1
   \<and> (puppeteer_launch w = Inr b \<longrightarrow>
        (\<exists>mid. fst (executeLighthouse w url options) = Launch # mid @ [Close b]
               \<and> released mid = []))
   \<and> (puppeteer_launch w = Inr b \<and> wsEndpoint_port w b = Inr port \<longrightarrow>
        fst (executeLighthouse w url options) =
          [Launch, Lighthouse url (lighthouse_flags port options), Close b]
        \<and> map_of (lighthouse_flags port options) ''port'' =
            (case map_of (rev (spread options)) ''port'' of
               None \<Rightarrow> Some (JNumber port)
             | Some p \<Rightarrow> Some p))"
proof -
  have 3: "\<exists>mid. fst (executeLighthouse w url options) = Launch # mid @ [Close b]
                 \<and> released mid = []"
    if "puppeteer_launch w = Inr b"
    using that released_run_audit[of w b url options] by (simp add: executeLighthouse_events)
  have 4: "fst (executeLighthouse w url options) =
          [Launch, Lighthouse url (lighthouse_flags port options), Close b]"
    if "puppeteer_launch w = Inr b" "wsEndpoint_port w b = Inr port"
    using that by (rule executeLighthouse_trace)
  show ?thesis
    using released_executeLighthouse launches_executeLighthouse 3 4 port_flag_exact by blast
qed

text \<open>A run whose engine rejects releases its browser; without options the call names
  the port of that browser.\<close>

theorem browser_released_witness:
  "puppeteer_launch failing_engine = Inr 1
   \<and> wsEndpoint_port failing_engine 1 = Inr (Finite 9222)
   \<and> released (fst (executeLighthouse failing_engine (JString ''https://example.com/'') None)) = [1]
   \<and> fst (executeLighthouse failing_engine (JString ''https://example.com/'') None) =
       [Launch,
        Lighthouse (JString ''https://example.com/'') (lighthouse_flags (Finite 9222) None),
        Close 1]
   \<and> map_of (lighthouse_flags (Finite 9222) None) ''port'' = Some (JNumber (Finite 9222))"
proof -
  have l: "puppeteer_launch failing_engine = Inr 1"
    "wsEndpoint_port failing_engine 1 = Inr (Finite 9222)"
    by (simp_all add: failing_engine_def example_world_def)
  have n: "map_of (rev (spread None)) ''port'' = None" by simp
  from browser_released_on_every_path[of failing_engine "JString ''https://example.com/''" None 1
      "Finite 9222"] l
  have "released (fst (executeLighthouse failing_engine (JString ''https://example.com/'') None)) =
          (case puppeteer_launch failing_engine of Inl e \<Rightarrow> [] | Inr b \<Rightarrow> [b])"
    and "fst (executeLighthouse failing_engine (JString ''https://example.com/'') None) =
       [Launch,
        Lighthouse (JString ''https://example.com/'') (lighthouse_flags (Finite 9222) None),
        Close 1]"
    and "map_of (lighthouse_flags (Finite 9222) None) ''port'' =
            (case map_of (rev (spread None)) ''port'' of
               None \<Rightarrow> Some (JNumber (Finite 9222))
             | Some p \<Rightarrow> Some p)"
    by blast+
  then show ?thesis using l n by simp
qed

text \<open>
  The claim has the browser of a run used by that run only. A request whose options are
  \<^verbatim>\<open>{port: 9333}\<close> passes them to \<^verbatim>\<open>executeLighthouse\<close> (line 136): the run launches
  browser 1, which listens on 9222, calls Lighthouse with the port 9333 and releases
  browser 1 unused. Port 9333 is where browser 2, the browser of another job, listens, and
  that job's own call names it too: two jobs audit in one browser.
\<close>

theorem caller_port_counterexample:
  "property port_body ''options'' = Some (JObject [(''port'', JNumber (Finite 9333))])
   \<and> wsEndpoint_port example_world 1 = Inr (Finite 9222)
   \<and> wsEndpoint_port other_job 2 = Inr (Finite 9333)
   \<and> fst (executeLighthouse example_world (JString ''https://example.com/'')
            (property port_body ''options'')) =
       [Launch,
        Lighthouse (JString ''https://example.com/'')
          [(''port'', JNumber (Finite 9333)),
           (''output'', JString ''json''),
           (''onlyCategories'',
              JArray [JString ''performance'', JString ''accessibility'',
                      JString ''best-practices'', JString ''seo''])],
        Close 1]
   \<and> fst (executeLighthouse other_job (JString ''https://example.org/'') None) =
       [Launch,
        Lighthouse (JString ''https://example.org/'')
          [(''port'', JNumber (Finite 9333)),
           (''output'', JString ''json''),
           (''onlyCategories'',
              JArray [JString ''performance'', JString ''accessibility'',
                      JString ''best-practices'', JString ''seo''])],
        Close 2]"
  by (simp add: port_body_def other_job_def example_world_def executeLighthouse_def run_audit_def
      lighthouse_flags_def)

subsection \<open>C5: one POST at most\<close>

text \<open>
  \<^bold>\<open>C5\<close>, as the code has it. Every job makes at most one POST to the API, whatever
  fails. \<^verbatim>\<open>sendResultsToAPI\<close> always returns: when the POST fails, its error is written
  with \<^verbatim>\<open>console.error\<close> right after the one POST, and no error is left unhandled.
  That line carries the error and no test id; the test id is in the first line of the
  summary that the same call printed before the POST. The job writes no answer, so the
  failure never reaches the caller.
\<close>

theorem delivery_at_most_once:
  "length (filter is_post (fst (background w t url options))) \<le> 1
   \<and> snd (background w t url options) = []
   \<and> filter is_response (fst (background w t url options)) = []
   \<and> snd (sendResultsToAPI w t results) = Inr ()
   \<and> (axios_post w (results_endpoint w) t r (toISOString w) = Some e \<longrightarrow>
         fst (sendResultsToAPI w t (Some r)) =
           summary t r
             @ [Post (results_endpoint w) t r (toISOString w), Console_error (Send_error e)]
         \<and> hd (summary t r) = Console_log (Results_for t))"
  using posts_background[of w t url options]
  by (simp add: background_unhandled no_response_background sendResultsToAPI_returns
      sendResultsToAPI_post_fails hd_summary)

text \<open>The example report when the POST is refused.\<close>

theorem delivery_at_most_once_witness:
  "axios_post failing_post (results_endpoint failing_post) ''test_1700000000000_k3x9q2m1z''
      example_report (toISOString failing_post) = Some example_error
   \<and> fst (sendResultsToAPI failing_post ''test_1700000000000_k3x9q2m1z'' (Some example_report)) =
       summary ''test_1700000000000_k3x9q2m1z'' example_report
         @ [Post ''http://localhost:3000/api/lighthouse/results'' ''test_1700000000000_k3x9q2m1z''
              example_report ''2023-11-14T22:13:20.000Z'',
            Console_error (Send_error example_error)]"
  using delivery_at_most_once[where w = failing_post and t = "''test_1700000000000_k3x9q2m1z''"
      and url = "JString ''https://example.com/''" and options = None
      and results = "Some example_report" and r = example_report and e = example_error]
  by (simp add: failing_post_def example_world_def results_endpoint_def API_URL_def)

text \<open>
  The claim has the error logged with the job id. When the POST of the example report is
  refused, the one line written with \<^verbatim>\<open>console.error\<close> is that of line 71, and it
  passes no test id.
\<close>

theorem delivery_error_line_counterexample:
  "error_lines
     (fst (sendResultsToAPI failing_post ''test_1700000000000_k3x9q2m1z'' (Some example_report))) =
     [Send_error example_error]
   \<and> map line_test_id
        (error_lines
           (fst (sendResultsToAPI failing_post ''test_1700000000000_k3x9q2m1z''
                   (Some example_report)))) =
       [None]"
  by (simp add: sendResultsToAPI_def send_results_def failing_post_def example_world_def
      summary_example)

subsection \<open>C6: scores as percentages\<close>

text \<open>
  \<^bold>\<open>C6.\<close> For every category of the report whose score is a number from 0 to 1, the
  summary has the line of that category with an integer \<open>n\<close> from 0 to 100, the score
  times 100 (a binary64 product) rounded by \<^verbatim>\<open>Math.round\<close>, so within a half (and the
  error of the product, at most \<open>1 / 2 ^ 47\<close>) of the exact percentage, and with the
  circle that \<open>n\<close> selects: green (good) from 90, yellow (medium) from 50, red (poor)
  below. For the scores 0.95 and 0.40 the lines are \<^verbatim>\<open>performance: 95/100\<close> with the
  green circle and \<^verbatim>\<open>seo: 40/100\<close> with the red one.
\<close>

theorem score_rendered_as_percentage:
  "(categories r = Some entries \<and> (c, data) \<in> set entries \<and> score data = Score (Finite q)
      \<and> 0 \<le> q \<and> q \<le> 1 \<longrightarrow>
      (\<exists>n. 0 \<le> n \<and> n \<le> 100
         \<and> Math_round (times_number (Finite q) (Finite 100)) = Finite (of_int n)
         \<and> \<bar>of_int n - 100 * q\<bar> \<le> 1 / 2 + 1 / 2 ^ 47
         \<and> Console_log
              (Score_line (if 90 \<le> n then Green else if 50 \<le> n then Yellow else Red) c
                 (Finite (of_int n)))
             \<in> set (summary t r)))
   \<and> score_lines
        (example_report
           \<lparr>categories :=
              Some [(''performance'', \<lparr>score = Score (binary64 (95 / 100))\<rparr>),
                    (''seo'', \<lparr>score = Score (binary64 (40 / 100))\<rparr>)]\<rparr>) =
       [Console_log (Score_line Green ''performance'' (Finite 95)),
        Console_log (Score_line Red ''seo'' (Finite 40))]"
proof -
  have general:
    "\<exists>n. 0 \<le> n \<and> n \<le> 100
         \<and> Math_round (times_number (Finite q) (Finite 100)) = Finite (of_int n)
         \<and> \<bar>of_int n - 100 * q\<bar> \<le> 1 / 2 + 1 / 2 ^ 47
         \<and> Console_log
              (Score_line (if 90 \<le> n then Green else if 50 \<le> n then Yellow else Red) c
                 (Finite (of_int n)))
             \<in> set (summary t r)"
    if h: "categories r = Some entries" "(c, data) \<in> set entries" "score data = Score (Finite q)"
      "0 \<le> q" "q \<le> 1"
  proof -
    obtain n where n: "rounded_score data = Finite (of_int n)" "0 \<le> n" "n \<le> 100"
        "\<bar>of_int n - 100 * q\<bar> \<le> 1 / 2 + 1 / 2 ^ 47"
      using rounded_score_close[OF h(3-5)] by blast
    have q: "score_or_0 (score data) = Finite q" using h(3) by simp
    have m: "Math_round (times_number (Finite q) (Finite 100)) = Finite (of_int n)"
      using n(1) unfolding rounded_score_def q .
    have "score_line (c, data) =
        Console_log
          (Score_line (if 90 \<le> n then Green else if 50 \<le> n then Yellow else Red) c
             (Finite (of_int n)))"
      by (simp only: score_line_def n(1) emoji_of_int fst_conv snd_conv)
    moreover have "score_line (c, data) \<in> set (summary t r)"
      using h(1,2) by (simp add: summary_def score_lines_def)
    ultimately show ?thesis using n(2-4) m by metis
  qed
  have example:
    "score_lines
        (example_report
           \<lparr>categories :=
              Some [(''performance'', \<lparr>score = Score (binary64 (95 / 100))\<rparr>),
                    (''seo'', \<lparr>score = Score (binary64 (40 / 100))\<rparr>)]\<rparr>) =
       [Console_log (Score_line Green ''performance'' (Finite 95)),
        Console_log (Score_line Red ''seo'' (Finite 40))]"
    unfolding score_lines_def score_line_def
    by (simp add: rounded_095 rounded_040 emoji_of_95 emoji_of_40)
  show ?thesis using general example by blast
qed

text \<open>The performance score of the example report, the binary64 value of \<^verbatim>\<open>0.95\<close>.\<close>

theorem score_rendered_as_percentage_witness:
  "categories example_report =
       Some [(''performance'', \<lparr>score = Score (binary64 (95 / 100))\<rparr>),
             (''seo'', \<lparr>score = Score (binary64 (40 / 100))\<rparr>),
             (''accessibility'', \<lparr>score = Score_null\<rparr>)]
   \<and> score \<lparr>score = Score (binary64 (95 / 100))\<rparr> =
       Score (Finite (4278419646001971 / 4503599627370496))
   \<and> (\<exists>n. 0 \<le> n \<and> n \<le> 100
         \<and> Console_log
              (Score_line (if 90 \<le> n then Green else if 50 \<le> n then Yellow else Red)
                 ''performance'' (Finite (of_int n)))
             \<in> set (summary ''test_1700000000000_k3x9q2m1z'' example_report))"
proof -
  have c: "categories example_report =
       Some [(''performance'', \<lparr>score = Score (binary64 (95 / 100))\<rparr>),
             (''seo'', \<lparr>score = Score (binary64 (40 / 100))\<rparr>),
             (''accessibility'', \<lparr>score = Score_null\<rparr>)]"
    by (simp add: example_report_def)
  have s: "score \<lparr>score = Score (binary64 (95 / 100))\<rparr> =
       Score (Finite (4278419646001971 / 4503599627370496))"
    by (simp add: literal_095)
  have m: "(''performance'', \<lparr>score = Score (binary64 (95 / 100))\<rparr>)
      \<in> set [(''performance'', \<lparr>score = Score (binary64 (95 / 100))\<rparr>),
             (''seo'', \<lparr>score = Score (binary64 (40 / 100))\<rparr>),
             (''accessibility'', \<lparr>score = Score_null\<rparr>)]"
    by simp
  have b: "(0::rat) \<le> 4278419646001971 / 4503599627370496"
    "(4278419646001971 / 4503599627370496 :: rat) \<le> 1"
    by simp_all
  from score_rendered_as_percentage[of example_report _ "''performance''"
      "\<lparr>score = Score (binary64 (95 / 100))\<rparr>" "4278419646001971 / 4503599627370496"
      "''test_1700000000000_k3x9q2m1z''"] c s m b
  show ?thesis by blast
qed

subsection \<open>C7: a metric without a display value\<close>

text \<open>
  \<^bold>\<open>C7.\<close> For every report and every audit id: when the report has no \<^verbatim>\<open>audits\<close>, or
  no audit of that id, or the audit has no \<^verbatim>\<open>displayValue\<close> or an empty one, the metric
  reads \<^verbatim>\<open>N/A\<close>, whatever the other audits are. Whatever is missing, the summary ends
  with the three metric lines (first contentful paint, largest contentful paint, total
  size), writes no error, and the POST follows it: the summary of a report never throws.
\<close>

theorem missing_metric_renders_NA:
  assumes "audits r = None
         \<or> (\<exists>entries. audits r = Some entries
              \<and> (map_of entries k = None
                 \<or> (\<exists>a. map_of entries k = Some a
                       \<and> (displayValue a = None \<or> displayValue a = Some []))))"
  shows "metric r k = ''N/A''
       \<and> (\<exists>before. summary t r =
             before
               @ [Console_log Metrics,
                  Console_log (First_contentful_paint (metric r ''first-contentful-paint'')),
                  Console_log (Largest_contentful_paint (metric r ''largest-contentful-paint'')),
                  Console_log (Total_size (metric r ''total-byte-weight'')),
                  Console_log Separator])
       \<and> (\<exists>after. fst (sendResultsToAPI w t (Some r)) =
             summary t r @ Post (results_endpoint w) t r (toISOString w) # after)
       \<and> error_lines (summary t r) = []"
proof -
  have 1: "metric r k = ''N/A''"
    using assms by (auto simp: metric_def display_value_def)
  have 2: "\<exists>before. summary t r =
             before
               @ [Console_log Metrics,
                  Console_log (First_contentful_paint (metric r ''first-contentful-paint'')),
                  Console_log (Largest_contentful_paint (metric r ''largest-contentful-paint'')),
                  Console_log (Total_size (metric r ''total-byte-weight'')),
                  Console_log Separator]"
    unfolding summary_def by (metis append.assoc)
  have 3: "\<exists>after. fst (sendResultsToAPI w t (Some r)) =
             summary t r @ Post (results_endpoint w) t r (toISOString w) # after"
    by (simp add: sendResultsToAPI_def send_results_def split: option.splits)
  have "error_lines (map score_line entries) = []" for entries
    by (induction entries) (simp_all add: score_line_def)
  then have 4: "error_lines (summary t r) = []"
    by (simp add: summary_def score_lines_def error_lines_append split: option.splits)
  show ?thesis using 1 2 3 4 by blast
qed

text \<open>The example report has no audit of the largest contentful paint, and its audit of
  the total byte weight has no display value.\<close>

theorem missing_metric_renders_NA_witness:
  "audits example_report =
     Some [(''first-contentful-paint'', \<lparr>displayValue = Some ''1.2 s''\<rparr>),
           (''total-byte-weight'', \<lparr>displayValue = None\<rparr>)]
   \<and> metric example_report ''largest-contentful-paint'' = ''N/A''
   \<and> metric example_report ''total-byte-weight'' = ''N/A''
   \<and> metric example_report ''first-contentful-paint'' = ''1.2 s''"
  using missing_metric_renders_NA[of example_report "''largest-contentful-paint''"]
    missing_metric_renders_NA[of example_report "''total-byte-weight''"]
  by (simp add: example_report_def metric_def display_value_def)

subsection \<open>C8: test ids\<close>

text \<open>
  \<^bold>\<open>C8\<close>, as the code has it. The test id is \<^verbatim>\<open>test_\<close>, the clock in milliseconds,
  \<^verbatim>\<open>_\<close> and a random suffix: two requests get the same id exactly when they read the
  same millisecond and draw the same suffix, so their ids differ whenever the clock or the
  suffix differs. Every id is a non-empty string, and a valid request is answered with it
  as \<^verbatim>\<open>id\<close> and with the status \<^verbatim>\<open>pending\<close>.
\<close>

theorem test_ids_differ_with_clock_or_suffix:
  "(testId w = testId w' \<longleftrightarrow>
      Date_now w = Date_now w' \<and> Math_random_suffix w = Math_random_suffix w')
   \<and> testId w \<noteq> []
   \<and> (valid_request w req body url \<longrightarrow>
        filter is_response (fst (request_handler w req)) =
          [Response 200 (Some (pending_body (testId w)))]
        \<and> property (pending_body (testId w)) ''id'' = Some (JString (testId w))
        \<and> property (pending_body (testId w)) ''status'' = Some (JString ''pending''))"
proof -
  have "filter is_response (fst (request_handler w req)) =
          [Response 200 (Some (pending_body (testId w)))]"
    if "valid_request w req body url"
    using accepted_responses[OF that] .
  moreover have "property (pending_body (testId w)) ''id'' = Some (JString (testId w))"
    "property (pending_body (testId w)) ''status'' = Some (JString ''pending'')"
    by (simp_all add: pending_body_def)
  ultimately show ?thesis using testId_eq_iff[of w w'] testId_nonempty[of w] by blast
qed

text \<open>Another suffix gives another id.\<close>

theorem test_ids_differ_witness:
  "valid_request example_world example_request example_body (JString ''https://example.com/'')
   \<and> testId example_world \<noteq> testId (example_world\<lparr>Math_random_suffix := ''7f3k2p9xa''\<rparr>)
   \<and> filter is_response (fst (request_handler example_world example_request)) =
        [Response 200 (Some (pending_body (testId example_world)))]"
  using test_ids_differ_with_clock_or_suffix[of example_world
      "example_world\<lparr>Math_random_suffix := ''7f3k2p9xa''\<rparr>" example_request example_body
      "JString ''https://example.com/''"] example_valid
  by (simp add: example_world_def)

text \<open>
  The claim has the ids of two accepted requests always differ. Two requests for
  different URLs, served with different browsers, that read the same millisecond and draw
  the same suffix are both answered with the id \<^verbatim>\<open>test_1700000000000_k3x9q2m1z\<close>.
\<close>

theorem same_test_id_counterexample:
  "example_world \<noteq> second_world
   \<and> example_request \<noteq> second_request
   \<and> filter is_response (fst (request_handler example_world example_request)) =
       [Response 200 (Some (pending_body ''test_1700000000000_k3x9q2m1z''))]
   \<and> filter is_response (fst (request_handler second_world second_request)) =
       [Response 200 (Some (pending_body ''test_1700000000000_k3x9q2m1z''))]"
proof -
  have v2: "valid_request second_world second_request
      (JObject [(''url'', JString ''https://example.org/'')]) (JString ''https://example.org/'')"
    by (simp add: valid_request_def second_world_def second_request_def example_world_def
        example_request_def)
  have t: "testId second_world = ''test_1700000000000_k3x9q2m1z''"
    using testId_example by (simp add: testId_def second_world_def)
  have d: "example_world \<noteq> second_world" "example_request \<noteq> second_request"
    by (simp_all add: second_world_def second_request_def example_world_def example_request_def
        example_body_def world.ext_inject request.ext_inject)
  show ?thesis
    using accepted_responses[OF example_valid] accepted_responses[OF v2] d
    by (simp add: testId_example t)
qed

subsection \<open>C9: a result without a report\<close>

text \<open>
  \<^bold>\<open>C9\<close>, as the code has it. For every valid request whose \<^verbatim>\<open>lighthouse\<close> call
  resolves with no \<^verbatim>\<open>lhr\<close> and whose \<^verbatim>\<open>browser.close()\<close> resolves, so that
  \<^verbatim>\<open>executeLighthouse\<close> resolves with \<^verbatim>\<open>undefined\<close>: \<^verbatim>\<open>sendResultsToAPI\<close> is
  still called, with \<^verbatim>\<open>undefined\<close>; it logs its first line, the read of
  \<^verbatim>\<open>results.finalUrl\<close> throws a \<^verbatim>\<open>TypeError\<close>, the \<^verbatim>\<open>catch\<close> logs it and the function
  returns. No POST is made and no error is left unhandled.
\<close>

theorem missing_report_is_caught:
  assumes "valid_request w req body url"
    and "puppeteer_launch w = Inr b"
    and "wsEndpoint_port w b = Inr port"
    and "lighthouse w url (lighthouse_flags port (property body ''options'')) = Inr runnerResult"
    and "lhr_of runnerResult = None"
    and "browser_close w b = None"
  shows "request_handler w req =
           (cors_headers
              @ [Console_log (Starting url (testId w)),
                 Response 200 (Some (pending_body (testId w))),
                 Launch,
                 Lighthouse url (lighthouse_flags port (property body ''options'')),
                 Close b,
                 Console_log (Finished (testId w))]
              @ fst (sendResultsToAPI w (testId w) None),
            [])
       \<and> sendResultsToAPI w (testId w) None =
           ([Console_log (Results_for (testId w)),
             Console_error (Send_error (type_error ''undefined'' ''finalUrl''))],
            Inr ())
       \<and> filter is_post (fst (request_handler w req)) = []"
proof -
  have s: "sendResultsToAPI w (testId w) None =
           ([Console_log (Results_for (testId w)),
             Console_error (Send_error (type_error ''undefined'' ''finalUrl''))],
            Inr ())"
    by (simp add: sendResultsToAPI_def send_results_def)
  have h: "request_handler w req =
           (cors_headers
              @ [Console_log (Starting url (testId w)),
                 Response 200 (Some (pending_body (testId w))),
                 Launch,
                 Lighthouse url (lighthouse_flags port (property body ''options'')),
                 Close b,
                 Console_log (Finished (testId w))]
              @ fst (sendResultsToAPI w (testId w) None),
            [])"
    using assms(2-6)
    by (simp add: valid_requestD[OF assms(1)] background_def executeLighthouse_def run_audit_def
        sendResultsToAPI_returns)
  show ?thesis using h s by (simp add: cors_headers_def)
qed

text \<open>The example request when the engine resolves with an object without \<^verbatim>\<open>lhr\<close>.\<close>

theorem missing_report_witness:
  "valid_request no_report example_request example_body (JString ''https://example.com/'')
   \<and> lhr_of (Some (Runner_result None)) = None
   \<and> request_handler no_report example_request =
       (cors_headers
          @ [Console_log
               (Starting (JString ''https://example.com/'') ''test_1700000000000_k3x9q2m1z''),
             Response 200 (Some (pending_body ''test_1700000000000_k3x9q2m1z'')),
             Launch,
             Lighthouse (JString ''https://example.com/'') (lighthouse_flags (Finite 9222) None),
             Close 1,
             Console_log (Finished ''test_1700000000000_k3x9q2m1z''),
             Console_log (Results_for ''test_1700000000000_k3x9q2m1z''),
             Console_error (Send_error (type_error ''undefined'' ''finalUrl''))],
        [])"
proof -
  have v: "valid_request no_report example_request example_body (JString ''https://example.com/'')"
    by (simp add: valid_request_def no_report_def example_world_def example_request_def
        example_body_def)
  have t: "testId no_report = ''test_1700000000000_k3x9q2m1z''"
    using testId_example by (simp add: testId_def no_report_def)
  have "puppeteer_launch no_report = Inr 1"
    "wsEndpoint_port no_report 1 = Inr (Finite 9222)"
    "lighthouse no_report (JString ''https://example.com/'')
       (lighthouse_flags (Finite 9222) (property example_body ''options'')) =
       Inr (Some (Runner_result None))"
    "lhr_of (Some (Runner_result None)) = None"
    "browser_close no_report 1 = None"
    "property example_body ''options'' = None"
    by (simp_all add: no_report_def example_world_def example_body_def)
  with missing_report_is_caught[OF v, of 1 "Finite 9222" "Some (Runner_result None)"] v t
  show ?thesis by simp
qed

text \<open>
  The claim has delivery invoked whenever the engine resolves without a report. When
  \<^verbatim>\<open>browser.close()\<close> then rejects, \<^verbatim>\<open>executeLighthouse\<close> rejects with that error:
  line 142 logs it and \<^verbatim>\<open>sendResultsToAPI\<close> is not called, so no line of it is
  written.
\<close>

theorem missing_report_close_fails_counterexample:
  "lighthouse no_report_close_fails (JString ''https://example.com/'')
      (lighthouse_flags (Finite 9222) None) = Inr (Some (Runner_result None))
   \<and> request_handler no_report_close_fails example_request =
       (cors_headers
          @ [Console_log
               (Starting (JString ''https://example.com/'') ''test_1700000000000_k3x9q2m1z''),
             Response 200 (Some (pending_body ''test_1700000000000_k3x9q2m1z'')),
             Launch,
             Lighthouse (JString ''https://example.com/'') (lighthouse_flags (Finite 9222) None),
             Close 1,
             Console_error
               (Lighthouse_error ''test_1700000000000_k3x9q2m1z''
                  ''Protocol error: Connection closed.'')],
        [])
   \<and> Console_log (Results_for ''test_1700000000000_k3x9q2m1z'')
       \<notin> set (fst (request_handler no_report_close_fails example_request))"
proof -
  have v: "valid_request no_report_close_fails example_request example_body
      (JString ''https://example.com/'')"
    by (simp add: valid_request_def no_report_close_fails_def no_report_def example_world_def
        example_request_def example_body_def)
  have t: "testId no_report_close_fails = ''test_1700000000000_k3x9q2m1z''"
    using testId_example by (simp add: testId_def no_report_close_fails_def no_report_def)
  have l: "lighthouse no_report_close_fails (JString ''https://example.com/'')
      (lighthouse_flags (Finite 9222) None) = Inr (Some (Runner_result None))"
    by (simp add: no_report_close_fails_def no_report_def)
  have h: "request_handler no_report_close_fails example_request =
       (cors_headers
          @ [Console_log
               (Starting (JString ''https://example.com/'') ''test_1700000000000_k3x9q2m1z''),
             Response 200 (Some (pending_body ''test_1700000000000_k3x9q2m1z'')),
             Launch,
             Lighthouse (JString ''https://example.com/'') (lighthouse_flags (Finite 9222) None),
             Close 1,
             Console_error
               (Lighthouse_error ''test_1700000000000_k3x9q2m1z''
                  ''Protocol error: Connection closed.'')],
        [])"
    unfolding valid_requestD[OF v] t
    by (simp add: background_def executeLighthouse_def run_audit_def no_report_close_fails_def
        no_report_def example_world_def example_body_def close_error_def)
  show ?thesis using l h by (simp add: cors_headers_def)
qed

subsection \<open>C10: a category without a score\<close>

text \<open>
  \<^bold>\<open>C10.\<close> For every category whose \<^verbatim>\<open>score\<close> is missing, \<^verbatim>\<open>null\<close> or zero, the
  line of the category reads \<^verbatim>\<open>0/100\<close> with the red circle, the lowest tier; the
  summary has that line, and it has one line for each category: none is skipped.
\<close>

theorem missing_score_renders_zero:
  assumes "score data = Score_missing \<or> score data = Score_null \<or> score data = Score (Finite 0)"
  shows "score_line (c, data) = Console_log (Score_line Red c (Finite 0))
       \<and> (categories r = Some entries \<and> (c, data) \<in> set entries \<longrightarrow>
             Console_log (Score_line Red c (Finite 0)) \<in> set (summary t r)
             \<and> length (score_lines r) = length entries)"
proof -
  have 1: "score_line (c, data) = Console_log (Score_line Red c (Finite 0))"
    by (simp add: score_line_def rounded_zero[OF assms] emoji_of_0)
  have "Console_log (Score_line Red c (Finite 0)) \<in> set (summary t r)
        \<and> length (score_lines r) = length entries"
    if "categories r = Some entries" "(c, data) \<in> set entries"
  proof -
    have "score_line (c, data) \<in> set (score_lines r)"
      using that by (simp add: score_lines_def)
    then show ?thesis using 1 that(1) by (simp add: summary_def score_lines_def)
  qed
  then show ?thesis using 1 by blast
qed

text \<open>The accessibility category of the example report has the score \<^verbatim>\<open>null\<close>.\<close>

theorem missing_score_renders_zero_witness:
  "score \<lparr>score = Score_null\<rparr> = Score_null
   \<and> categories example_report =
       Some [(''performance'', \<lparr>score = Score (binary64 (95 / 100))\<rparr>),
             (''seo'', \<lparr>score = Score (binary64 (40 / 100))\<rparr>),
             (''accessibility'', \<lparr>score = Score_null\<rparr>)]
   \<and> Console_log (Score_line Red ''accessibility'' (Finite 0))
       \<in> set (summary ''test_1700000000000_k3x9q2m1z'' example_report)"
  using missing_score_renders_zero[of "\<lparr>score = Score_null\<rparr>" "''accessibility''" example_report
      "[(''performance'', \<lparr>score = Score (binary64 (95 / 100))\<rparr>),
        (''seo'', \<lparr>score = Score (binary64 (40 / 100))\<rparr>),
        (''accessibility'', \<lparr>score = Score_null\<rparr>)]" "''test_1700000000000_k3x9q2m1z''"]
  by (simp add: example_report_def)

end
